theory Spec2Isabelle
  imports Complex_Main "HOL-Library.Word" "HOL-Library.Log_Nat"
begin

section \<open>Lunar telemetry simulator: \<open>simulator/lunar_simulator.py\<close>\<close>

text \<open>
  A shallow embedding of \<open>LunarTelemetrySimulator\<close>. Python \<open>int\<close> is \<open>int\<close> and
  \<open>bytes\<close> is a list of 8-bit words. A Python \<open>float\<close> is the real number it stands
  for. What the object keeps from one iteration to the next (the mission time, the two
  phases, the baseline constants) is computed as the code computes it, every float
  literal and every \<open>+\<close>, \<open>-\<close>, \<open>*\<close>, \<open>/\<close> rounded to the nearest double. The
  arithmetic inside \<open>_generate_telemetry\<close>, which ends in a truncation to an integer,
  is taken over the reals, with the mathematical sine and cosine. Everything the
  methods do besides returning a value (printing, sending a datagram, closing the
  socket, sleeping) is an entry of an event trace; every exception is a value of
  \<open>py_error\<close>. \<open>print\<close> and \<open>time.sleep\<close> are taken to succeed.
\<close>

subsection \<open>Bytes and \<open>struct.pack\<close>\<close>

type_synonym byte = "8 word"

datatype py_error = StructError | ZeroDivisionError | KeyboardInterrupt

text \<open>The arguments handed to \<open>struct.pack\<close> here are Python ints and bools.\<close>

datatype pyval = PyInt int | PyBool bool

text \<open>The format characters that occur in the two format strings of the file.\<close>

datatype fmt = Fmt_h | Fmt_i | Fmt_I | Fmt_bool | Fmt_B | Fmt_H

text \<open>
  \<open>n\<close> bytes of \<open>v\<close>, least significant first. \<open>div\<close> on \<open>int\<close> rounds down, so a
  negative \<open>v\<close> comes out in two's complement.
\<close>

fun le_bytes :: "nat \<Rightarrow> int \<Rightarrow> byte list" where
  "le_bytes 0 v = []"
| "le_bytes (Suc n) v = word_of_int v # le_bytes n (v div 256)"

text \<open>\<open>bool\<close> is a subclass of \<open>int\<close>: an integer format takes \<open>True\<close> as 1.\<close>

fun index_of :: "pyval \<Rightarrow> int" where
  "index_of (PyInt v) = v"
| "index_of (PyBool b) = (if b then 1 else 0)"

fun truth_of :: "pyval \<Rightarrow> bool" where
  "truth_of (PyInt v) = (v \<noteq> 0)"
| "truth_of (PyBool b) = b"

fun fmt_size :: "fmt \<Rightarrow> nat" where
  "fmt_size Fmt_h = 2"
| "fmt_size Fmt_i = 4"
| "fmt_size Fmt_I = 4"
| "fmt_size Fmt_bool = 1"
| "fmt_size Fmt_B = 1"
| "fmt_size Fmt_H = 2"

text \<open>The closed interval of integers an integer format accepts.\<close>

fun fmt_min :: "fmt \<Rightarrow> int" where
  "fmt_min Fmt_h = - 32768"
| "fmt_min Fmt_i = - 2147483648"
| "fmt_min f = 0"

fun fmt_max :: "fmt \<Rightarrow> int" where
  "fmt_max Fmt_h = 32767"
| "fmt_max Fmt_i = 2147483647"
| "fmt_max Fmt_I = 4294967295"
| "fmt_max Fmt_bool = 1"
| "fmt_max Fmt_B = 255"
| "fmt_max Fmt_H = 65535"

text \<open>
  One argument under one format character, standard sizes, little-endian, no padding
  (the \<open><\<close> prefix). An integer outside the format's interval raises \<open>struct.error\<close>;
  \<open>?\<close> takes the truth value of anything and never raises.
\<close>

fun pack_item :: "fmt \<Rightarrow> pyval \<Rightarrow> py_error + byte list" where
  "pack_item Fmt_bool v = Inr [if truth_of v then 1 else 0]"
| "pack_item f v =
     (if fmt_min f \<le> index_of v \<and> index_of v \<le> fmt_max f
      then Inr (le_bytes (fmt_size f) (index_of v))
      else Inl StructError)"

text \<open>\<open>struct.pack\<close>: the arguments in order; too few or too many raise as well.\<close>

fun struct_pack :: "fmt list \<Rightarrow> pyval list \<Rightarrow> py_error + byte list" where
  "struct_pack [] [] = Inr []"
| "struct_pack (f # fs) (v # vs) =
     (case pack_item f v of
        Inl e \<Rightarrow> Inl e
      | Inr bs \<Rightarrow> (case struct_pack fs vs of Inl e \<Rightarrow> Inl e | Inr rest \<Rightarrow> Inr (bs @ rest)))"
| "struct_pack fs vs = Inl StructError"

subsection \<open>Frame constants\<close>

definition FRAME_START_SYMBOL :: int where
  "FRAME_START_SYMBOL = 0x12"

definition TELEMETRY_FRAME :: int where
  "TELEMETRY_FRAME = 0x06"

definition TELEMETRY_FRAME_PAYLOAD_SIZE :: nat where
  "TELEMETRY_FRAME_PAYLOAD_SIZE = 63"

subsection \<open>The telemetry sample\<close>

text \<open>The dictionary \<open>_generate_telemetry\<close> returns: always the same 25 keys.\<close>

record sample =
  icm_gyr_x :: int
  icm_gyr_y :: int
  icm_gyr_z :: int
  icm_acc_x :: int
  icm_acc_y :: int
  icm_acc_z :: int
  icm_temp :: int
  mmc_mag_x :: int
  mmc_mag_y :: int
  mmc_mag_z :: int
  mmc_temp :: int
  rdn_serial_dose :: int
  rdn_sen1_dose :: int
  rdn_sen2_dose :: int
  rdn_serial_intensity :: int
  rdn_sen1_intensity :: int
  rdn_sen2_intensity :: int
  rdn_temp :: int
  rdn_vdd :: int
  rdn_crystal_ok :: bool
  rdn_analog_ok :: bool
  encoder_sensor :: int
  hall_endstop :: int
  reflective_endstop :: int
  light_sensor :: int

subsection \<open>Events\<close>

text \<open>
  What an observer of the process sees, in order: the lines printed, the datagrams that
  \<open>sendto\<close> accepted, the socket being opened and closed, and the sleeps.
\<close>

datatype event =
    PrintStarted
  | PrintStopping
  | PrintStopped
  | PrintPackError
  | PrintSendError
  | PrintStatus int int int real real
  | SocketOpened
  | SocketClosed
  | Datagram "byte list"
  | Sleep real
  | SleepInterrupted

subsection \<open>\<open>_pack_telemetry\<close>\<close>

text \<open>The format string \<open>"<3h 3h h 3i h 6I 2h 2? 3B H"\<close>, repeat counts expanded.\<close>

definition telemetry_format :: "fmt list" where
  "telemetry_format =
     replicate 3 Fmt_h @ replicate 3 Fmt_h @ [Fmt_h] @ replicate 3 Fmt_i @ [Fmt_h] @
     replicate 6 Fmt_I @ replicate 2 Fmt_h @ replicate 2 Fmt_bool @ replicate 3 Fmt_B @ [Fmt_H]"

definition telemetry_args :: "sample \<Rightarrow> pyval list" where
  "telemetry_args data =
     [PyInt (icm_gyr_x data), PyInt (icm_gyr_y data), PyInt (icm_gyr_z data),
      PyInt (icm_acc_x data), PyInt (icm_acc_y data), PyInt (icm_acc_z data),
      PyInt (icm_temp data),
      PyInt (mmc_mag_x data), PyInt (mmc_mag_y data), PyInt (mmc_mag_z data),
      PyInt (mmc_temp data),
      PyInt (rdn_serial_dose data), PyInt (rdn_sen1_dose data), PyInt (rdn_sen2_dose data),
      PyInt (rdn_serial_intensity data), PyInt (rdn_sen1_intensity data),
      PyInt (rdn_sen2_intensity data),
      PyInt (rdn_temp data), PyInt (rdn_vdd data),
      PyBool (rdn_crystal_ok data), PyBool (rdn_analog_ok data),
      PyInt (encoder_sensor data), PyInt (hall_endstop data), PyInt (reflective_endstop data),
      PyInt (light_sensor data)]"

text \<open>
  The \<open>try\<close> block: the packed bytes, or, on any exception, the error line and \<open>None\<close>.
\<close>

definition pack_telemetry :: "sample \<Rightarrow> byte list option \<times> event list" where
  "pack_telemetry data =
     (case struct_pack telemetry_format (telemetry_args data) of
        Inr packed \<Rightarrow> (Some packed, [])
      | Inl e \<Rightarrow> (None, [PrintPackError]))"

subsection \<open>\<open>_send_telemetry\<close>\<close>

text \<open>\<open>self.socket\<close>: \<open>None\<close> until \<open>start\<close>, then a UDP socket, closed by \<open>stop\<close>.\<close>

datatype sock = NoSocket | OpenSocket | ClosedSocket

text \<open>
  \<open>socket.sendto\<close>: on an open socket the network decides (\<open>net_ok\<close>); a closed socket
  raises \<open>OSError\<close> and \<open>None\<close> has no \<open>sendto\<close>. Each failure is an \<open>Exception\<close>.
\<close>

definition sendto :: "sock \<Rightarrow> bool \<Rightarrow> byte list \<Rightarrow> bool" where
  "sendto sk net_ok frame = (sk = OpenSocket \<and> net_ok)"

text \<open>
  \<open>if not packed_data: return\<close> leaves on \<open>None\<close> and on empty bytes. The header
  \<open>struct.pack('BB', ...)\<close> stands outside the \<open>try\<close>: its error would propagate.
\<close>

definition send_telemetry :: "sock \<Rightarrow> bool \<Rightarrow> sample \<Rightarrow> (py_error + unit) \<times> event list" where
  "send_telemetry sk net_ok data =
     (case pack_telemetry data of
        (None, evs) \<Rightarrow> (Inr (), evs)
      | (Some packed_data, evs) \<Rightarrow>
          if packed_data = [] then (Inr (), evs)
          else (case struct_pack [Fmt_B, Fmt_B] [PyInt FRAME_START_SYMBOL, PyInt TELEMETRY_FRAME] of
                  Inl e \<Rightarrow> (Inl e, evs)
                | Inr header \<Rightarrow>
                    let frame = header @ packed_data in
                    if sendto sk net_ok frame then (Inr (), evs @ [Datagram frame])
                    else (Inr (), evs @ [PrintSendError])))"

subsection \<open>Python floats\<close>

text \<open>
  IEEE 754 binary64 with an unbounded exponent (no overflow to \<open>inf\<close>, no subnormal
  numbers, no \<open>nan\<close>): a significand of 53 bits, round to nearest, ties to even.
\<close>

definition pow2 :: "int \<Rightarrow> real" where
  "pow2 k = (if 0 \<le> k then 2 ^ nat k else 1 / 2 ^ nat (- k))"

text \<open>For \<open>x > 0\<close>, the exponent \<open>e\<close> with \<open>2 ^ e \<le> x < 2 ^ (e + 1)\<close>.\<close>

definition ilog2 :: "real \<Rightarrow> int" where
  "ilog2 x = (if 1 \<le> x then bitlen \<lfloor>x\<rfloor> - 1 else - bitlen (\<lceil>1 / x\<rceil> - 1))"

definition round_half_even :: "real \<Rightarrow> int" where
  "round_half_even y =
     (let n = \<lfloor>y\<rfloor>; r = y - of_int n
      in if r < 1 / 2 then n else if 1 / 2 < r then n + 1 else if even n then n else n + 1)"

text \<open>The double nearest to \<open>x\<close>: \<open>x\<close> rounded to a multiple of its unit in the last place.\<close>

definition nearest_double :: "real \<Rightarrow> real" where
  "nearest_double x =
     (if x = 0 then 0
      else let ulp = pow2 (ilog2 \<bar>x\<bar> - 52) in of_int (round_half_even (x / ulp)) * ulp)"

definition float_add :: "real \<Rightarrow> real \<Rightarrow> real" where
  "float_add x y = nearest_double (x + y)"

definition float_sub :: "real \<Rightarrow> real \<Rightarrow> real" where
  "float_sub x y = nearest_double (x - y)"

definition float_mul :: "real \<Rightarrow> real \<Rightarrow> real" where
  "float_mul x y = nearest_double (x * y)"

text \<open>The caller has checked that \<open>y\<close> is not zero.\<close>

definition float_div :: "real \<Rightarrow> real \<Rightarrow> real" where
  "float_div x y = nearest_double (x / y)"

subsection \<open>The simulator object\<close>

text \<open>The dictionary \<open>self.baseline\<close>: six fixed keys.\<close>

record baseline =
  gyro_noise :: real
  accel_noise :: real
  mag_noise :: real
  temp_variation :: real
  radiation_base :: real
  radiation_variation :: real

record simulator =
  host :: string
  port :: int
  rate :: real
  running :: bool
  socket :: sock
  mission_time :: real
  baseline :: baseline
  orbit_phase :: real
  thermal_cycle :: real

definition DEFAULT_HOST :: string where
  "DEFAULT_HOST = ''127.0.0.1''"

definition DEFAULT_PORT :: int where
  "DEFAULT_PORT = 10015"

definition DEFAULT_RATE :: real where
  "DEFAULT_RATE = 1.0"

text \<open>\<open>__init__\<close>.\<close>

definition init :: "string \<Rightarrow> int \<Rightarrow> real \<Rightarrow> simulator" where
  "init h p r =
     \<lparr>host = h, port = p, rate = r, running = False, socket = NoSocket,
      mission_time = 0.0,
      baseline = \<lparr>gyro_noise = nearest_double 0.1, accel_noise = nearest_double 0.05,
                  mag_noise = 5.0,
                  temp_variation = 2.0, radiation_base = 1000, radiation_variation = 50\<rparr>,
      orbit_phase = 0.0, thermal_cycle = 0.0\<rparr>"

text \<open>
  The scenario adjustments \<open>main\<close> makes between \<open>__init__\<close> and \<open>start\<close>. The two
  noise constants are floats; \<open>radiation_variation\<close> is an int and doubles exactly.
\<close>

datatype scenario = Nominal | Anomaly | Eclipse

fun apply_scenario :: "scenario \<Rightarrow> simulator \<Rightarrow> simulator" where
  "apply_scenario Nominal s = s"
| "apply_scenario Anomaly s =
     s\<lparr>baseline := (baseline s)\<lparr>gyro_noise := float_mul (gyro_noise (baseline s)) 3,
                                  radiation_variation := radiation_variation (baseline s) * 2\<rparr>\<rparr>"
| "apply_scenario Eclipse s =
     s\<lparr>baseline := (baseline s)\<lparr>temp_variation := float_mul (temp_variation (baseline s)) 2\<rparr>\<rparr>"

subsection \<open>The random source\<close>

text \<open>
  One call of \<open>_generate_telemetry\<close> makes nineteen draws, in a fixed order. A record
  holds the outcome of each: for \<open>random.gauss\<close> the standard normal deviate \<open>z\<close> it
  scales, for \<open>random.random\<close> and \<open>random.uniform\<close> the underlying number in
  \<open>[0, 1)\<close>.
\<close>

record draws =
  z_gyro_x :: real
  z_gyro_y :: real
  z_gyro_z :: real
  z_accel_x :: real
  z_accel_y :: real
  z_accel_z :: real
  z_imu_temp :: real
  z_mag_temp :: real
  z_serial_dose :: real
  z_sen1_dose :: real
  z_sen2_dose :: real
  z_rdn_temp :: real
  z_rdn_vdd :: real
  u_crystal :: real
  u_analog :: real
  u_encoder :: real
  u_hall :: real
  u_reflective :: real
  z_light :: real

text \<open>\<open>random.gauss(mu, sigma)\<close> returns \<open>mu + z * sigma\<close>.\<close>

definition gauss :: "real \<Rightarrow> real \<Rightarrow> real \<Rightarrow> real" where
  "gauss z mu sigma = mu + z * sigma"

text \<open>
  The deviate itself, as the library draws it from two numbers of \<open>random()\<close>: the
  cosine of a random angle (on every other call the sine of the angle before), here
  \<open>c\<close>, times \<open>sqrt(-2.0 * log(1.0 - random()))\<close>. A number of \<open>random()\<close> is a
  multiple of \<open>2 ^ -53\<close> in \<open>[0, 1)\<close>.
\<close>

definition gauss_deviate :: "real \<Rightarrow> real \<Rightarrow> real" where
  "gauss_deviate c v = c * sqrt (- 2 * ln (1 - v))"

text \<open>\<open>random.uniform(a, b)\<close> returns \<open>a + (b - a) * random()\<close>.\<close>

definition uniform :: "real \<Rightarrow> real \<Rightarrow> real \<Rightarrow> real" where
  "uniform u a b = a + (b - a) * u"

text \<open>\<open>int(x)\<close> on a float: truncation toward zero.\<close>

definition py_int :: "real \<Rightarrow> int" where
  "py_int x = (if 0 \<le> x then \<lfloor>x\<rfloor> else \<lceil>x\<rceil>)"

subsection \<open>\<open>_generate_telemetry\<close>\<close>

definition radiation_multiplier :: "real \<Rightarrow> real" where
  "radiation_multiplier phase = 1.0 + 0.3 * sin (phase * 2)"

definition generate_telemetry :: "draws \<Rightarrow> simulator \<Rightarrow> sample" where
  "generate_telemetry d s =
     (let b = baseline s;
          gyro_x = py_int (sin (orbit_phase s) * 10 + gauss (z_gyro_x d) 0 (gyro_noise b) * 100);
          gyro_y = py_int (cos (orbit_phase s) * 8 + gauss (z_gyro_y d) 0 (gyro_noise b) * 100);
          gyro_z = py_int (gauss (z_gyro_z d) 0 (gyro_noise b) * 100);
          accel_x = py_int (gauss (z_accel_x d) 0 (accel_noise b) * 1000);
          accel_y = py_int (gauss (z_accel_y d) 0 (accel_noise b) * 1000);
          accel_z = py_int (gauss (z_accel_z d) 0.001 (accel_noise b) * 1000);
          imu_temp = py_int (- 10 + 15 * sin (thermal_cycle s)
                             + gauss (z_imu_temp d) 0 (temp_variation b) * 10);
          mag_x = py_int (- 25000 + 5000 * sin (orbit_phase s));
          mag_y = py_int (15000 + 3000 * cos (orbit_phase s));
          mag_z = py_int (45000 + 2000 * sin (orbit_phase s * 0.7));
          mag_temp = py_int (- 5 + 10 * sin (thermal_cycle s + 0.5)
                             + gauss (z_mag_temp d) 0 (temp_variation b) * 10);
          multiplier = radiation_multiplier (orbit_phase s);
          serial_dose = py_int (radiation_base b * multiplier
                                + gauss (z_serial_dose d) 0 (radiation_variation b));
          sen1_dose = py_int (radiation_base b * multiplier * 0.9
                              + gauss (z_sen1_dose d) 0 (radiation_variation b));
          sen2_dose = py_int (radiation_base b * multiplier * 1.1
                              + gauss (z_sen2_dose d) 0 (radiation_variation b));
          serial_intensity = py_int (100 + 20 * sin (orbit_phase s * 3));
          sen1_intensity = py_int (95 + 18 * sin (orbit_phase s * 3 + 0.2));
          sen2_intensity = py_int (105 + 22 * sin (orbit_phase s * 3 + 0.4));
          r_temp = py_int (20 + 5 * sin (thermal_cycle s + 1.0) + gauss (z_rdn_temp d) 0 1 * 10);
          r_vdd = py_int (3300 + gauss (z_rdn_vdd d) 0 10);
          crystal_ok = (u_crystal d > 0.01);
          analog_ok = (u_analog d > 0.005);
          encoder = py_int (uniform (u_encoder d) 0 255);
          hall = (if u_hall d > 0.9 then 1 else 0);
          reflective = (if u_reflective d > 0.95 then 1 else 0);
          light = py_int (1000 + 500 * sin (orbit_phase s) + gauss (z_light d) 0 50)
      in \<lparr>icm_gyr_x = gyro_x, icm_gyr_y = gyro_y, icm_gyr_z = gyro_z,
          icm_acc_x = accel_x, icm_acc_y = accel_y, icm_acc_z = accel_z,
          icm_temp = imu_temp,
          mmc_mag_x = mag_x, mmc_mag_y = mag_y, mmc_mag_z = mag_z,
          mmc_temp = mag_temp,
          rdn_serial_dose = serial_dose, rdn_sen1_dose = sen1_dose, rdn_sen2_dose = sen2_dose,
          rdn_serial_intensity = serial_intensity, rdn_sen1_intensity = sen1_intensity,
          rdn_sen2_intensity = sen2_intensity,
          rdn_temp = r_temp, rdn_vdd = r_vdd,
          rdn_crystal_ok = crystal_ok, rdn_analog_ok = analog_ok,
          encoder_sensor = encoder, hall_endstop = hall, reflective_endstop = reflective,
          light_sensor = light\<rparr>)"

subsection \<open>\<open>_print_status\<close>\<close>

text \<open>\<open>//\<close> and \<open>%\<close> on floats round down, as \<open>\<lfloor>_\<rfloor>\<close> does.\<close>

definition fmod :: "real \<Rightarrow> real \<Rightarrow> real" where
  "fmod x m = x - m * of_int \<lfloor>x / m\<rfloor>"

definition print_status :: "simulator \<Rightarrow> event" where
  "print_status s =
     (let mission_hours = \<lfloor>mission_time s / 3600\<rfloor>;
          mission_minutes = \<lfloor>fmod (mission_time s) 3600 / 60\<rfloor>;
          mission_seconds = py_int (fmod (mission_time s) 60)
      in PrintStatus mission_hours mission_minutes mission_seconds
           (orbit_phase s) (thermal_cycle s))"

subsection \<open>One pass through the body of \<open>_simulation_loop\<close>\<close>

text \<open>
  What the world supplies to one iteration: the outcomes of the random draws, whether the
  network takes the datagram, the two readings of \<open>time.time()\<close>, and where, if at all,
  Ctrl+C raises \<open>KeyboardInterrupt\<close> in the body.
\<close>

datatype interrupt_point =
    BeforeGenerate
  | BeforeSend
  | AfterSend
  | AfterMissionTime
  | AfterOrbitPhase
  | AfterThermalCycle
  | AfterStatus
  | DuringSleep

record tick_env =
  rnd :: draws
  net_ok :: bool
  t_start :: real
  t_end :: real
  interrupt :: "interrupt_point option"

text \<open>
  The three assignments under \<open># Update mission time and phases\<close>, each \<open>+=\<close> a float
  addition.
\<close>

definition update_state :: "simulator \<Rightarrow> simulator" where
  "update_state s =
     s\<lparr>mission_time := float_add (mission_time s) (float_div 1.0 (rate s)),
       orbit_phase := float_add (orbit_phase s) (nearest_double 0.01),
       thermal_cycle := float_add (thermal_cycle s) (nearest_double 0.05)\<rparr>"

text \<open>
  The loop body, statement by statement. \<open>1.0 / self.rate\<close> raises
  \<open>ZeroDivisionError\<close> when the rate is zero, before anything is assigned.
\<close>

definition tick :: "tick_env \<Rightarrow> simulator \<Rightarrow> (py_error + unit) \<times> simulator \<times> event list" where
  "tick e s =
     (if interrupt e = Some BeforeGenerate then (Inl KeyboardInterrupt, s, [])
      else
        let telemetry_data = generate_telemetry (rnd e) s in
        if interrupt e = Some BeforeSend then (Inl KeyboardInterrupt, s, [])
        else
          case send_telemetry (socket s) (net_ok e) telemetry_data of
            (Inl err, evs) \<Rightarrow> (Inl err, s, evs)
          | (Inr u, evs) \<Rightarrow>
              if interrupt e = Some AfterSend then (Inl KeyboardInterrupt, s, evs)
              else if rate s = 0 then (Inl ZeroDivisionError, s, evs)
              else
                let s1 = s\<lparr>mission_time :=
                            float_add (mission_time s) (float_div 1.0 (rate s))\<rparr> in
                if interrupt e = Some AfterMissionTime then (Inl KeyboardInterrupt, s1, evs)
                else
                  let s2 = s1\<lparr>orbit_phase :=
                              float_add (orbit_phase s1) (nearest_double 0.01)\<rparr> in
                  if interrupt e = Some AfterOrbitPhase then (Inl KeyboardInterrupt, s2, evs)
                  else
                    let s3 = s2\<lparr>thermal_cycle :=
                                float_add (thermal_cycle s2) (nearest_double 0.05)\<rparr> in
                    if interrupt e = Some AfterThermalCycle then (Inl KeyboardInterrupt, s3, evs)
                    else
                      let evs1 = evs @ [print_status s3] in
                      if interrupt e = Some AfterStatus then (Inl KeyboardInterrupt, s3, evs1)
                      else
                        let elapsed = float_sub (t_end e) (t_start e);
                            sleep_time = max 0 (float_sub (float_div 1.0 (rate s3)) elapsed)
                        in if interrupt e = Some DuringSleep
                           then (Inl KeyboardInterrupt, s3, evs1 @ [SleepInterrupted])
                           else (Inr (), s3, evs1 @ [Sleep sleep_time]))"

subsection \<open>\<open>_simulation_loop\<close>, \<open>stop\<close> and \<open>start\<close>\<close>

text \<open>
  The \<open>while self.running\<close> loop has no exit of its own. It is run against a finite
  list of environments, one per iteration: the result is the exception that left the
  loop, or \<open>Returned\<close> when the test failed, or \<open>StillRunning\<close> when the list is used up
  with the loop still going.
\<close>

datatype outcome = Raised py_error | Returned | StillRunning

fun simulation_loop :: "tick_env list \<Rightarrow> simulator \<Rightarrow> outcome \<times> simulator \<times> event list" where
  "simulation_loop [] s = (if running s then (StillRunning, s, []) else (Returned, s, []))"
| "simulation_loop (e # es) s =
     (if \<not> running s then (Returned, s, [])
      else case tick e s of
             (Inl err, s', evs) \<Rightarrow> (Raised err, s', evs)
           | (Inr u, s', evs) \<Rightarrow>
               (case simulation_loop es s' of (r, s'', evs') \<Rightarrow> (r, s'', evs @ evs')))"

text \<open>\<open>if self.socket:\<close> holds for every socket object, open or closed.\<close>

definition stop :: "simulator \<Rightarrow> simulator \<times> event list" where
  "stop s =
     (let s1 = s\<lparr>running := False\<rparr> in
      if socket s1 \<noteq> NoSocket
      then (s1\<lparr>socket := ClosedSocket\<rparr>, [SocketClosed, PrintStopped])
      else (s1, [PrintStopped]))"

text \<open>
  \<open>start\<close>: \<open>KeyboardInterrupt\<close> is caught, any other exception goes on to the caller, and
  \<open>stop\<close> runs in the \<open>finally\<close> clause either way.
\<close>

definition start :: "tick_env list \<Rightarrow> simulator \<Rightarrow> outcome \<times> simulator \<times> event list" where
  "start es s =
     (let s0 = s\<lparr>running := True, socket := OpenSocket\<rparr>;
          evs0 = [SocketOpened, PrintStarted]
      in case simulation_loop es s0 of
           (StillRunning, s1, evs) \<Rightarrow> (StillRunning, s1, evs0 @ evs)
         | (Raised KeyboardInterrupt, s1, evs) \<Rightarrow>
             (case stop s1 of (s2, evs2) \<Rightarrow> (Returned, s2, evs0 @ evs @ [PrintStopping] @ evs2))
         | (r, s1, evs) \<Rightarrow>
             (case stop s1 of (s2, evs2) \<Rightarrow> (r, s2, evs0 @ evs @ evs2)))"

text \<open>The datagrams of a trace, in the order they were sent.\<close>

fun datagrams :: "event list \<Rightarrow> byte list list" where
  "datagrams [] = []"
| "datagrams (Datagram f # evs) = f # datagrams evs"
| "datagrams (ev # evs) = datagrams evs"

subsection \<open>What \<open>struct.pack\<close> accepts and produces for a sample\<close>

definition i16 :: "int \<Rightarrow> bool" where
  "i16 v = (- 32768 \<le> v \<and> v \<le> 32767)"

definition i32 :: "int \<Rightarrow> bool" where
  "i32 v = (- 2147483648 \<le> v \<and> v \<le> 2147483647)"

definition u32 :: "int \<Rightarrow> bool" where
  "u32 v = (0 \<le> v \<and> v \<le> 4294967295)"

definition u16 :: "int \<Rightarrow> bool" where
  "u16 v = (0 \<le> v \<and> v \<le> 65535)"

definition u8 :: "int \<Rightarrow> bool" where
  "u8 v = (0 \<le> v \<and> v \<le> 255)"

text \<open>Every integer field lies in the interval of its format character.\<close>

definition fields_fit :: "sample \<Rightarrow> bool" where
  "fields_fit d =
     (i16 (icm_gyr_x d) \<and> i16 (icm_gyr_y d) \<and> i16 (icm_gyr_z d) \<and>
      i16 (icm_acc_x d) \<and> i16 (icm_acc_y d) \<and> i16 (icm_acc_z d) \<and>
      i16 (icm_temp d) \<and>
      i32 (mmc_mag_x d) \<and> i32 (mmc_mag_y d) \<and> i32 (mmc_mag_z d) \<and>
      i16 (mmc_temp d) \<and>
      u32 (rdn_serial_dose d) \<and> u32 (rdn_sen1_dose d) \<and> u32 (rdn_sen2_dose d) \<and>
      u32 (rdn_serial_intensity d) \<and> u32 (rdn_sen1_intensity d) \<and>
      u32 (rdn_sen2_intensity d) \<and>
      i16 (rdn_temp d) \<and> i16 (rdn_vdd d) \<and>
      u8 (encoder_sensor d) \<and> u8 (hall_endstop d) \<and> u8 (reflective_endstop d) \<and>
      u16 (light_sensor d))"

definition flag_byte :: "bool \<Rightarrow> byte" where
  "flag_byte b = (if b then 1 else 0)"

text \<open>The 63 bytes \<open>struct.pack\<close> returns when every field fits.\<close>

definition payload_bytes :: "sample \<Rightarrow> byte list" where
  "payload_bytes d =
     le_bytes 2 (icm_gyr_x d) @ le_bytes 2 (icm_gyr_y d) @ le_bytes 2 (icm_gyr_z d) @
     le_bytes 2 (icm_acc_x d) @ le_bytes 2 (icm_acc_y d) @ le_bytes 2 (icm_acc_z d) @
     le_bytes 2 (icm_temp d) @
     le_bytes 4 (mmc_mag_x d) @ le_bytes 4 (mmc_mag_y d) @ le_bytes 4 (mmc_mag_z d) @
     le_bytes 2 (mmc_temp d) @
     le_bytes 4 (rdn_serial_dose d) @ le_bytes 4 (rdn_sen1_dose d) @
     le_bytes 4 (rdn_sen2_dose d) @
     le_bytes 4 (rdn_serial_intensity d) @ le_bytes 4 (rdn_sen1_intensity d) @
     le_bytes 4 (rdn_sen2_intensity d) @
     le_bytes 2 (rdn_temp d) @ le_bytes 2 (rdn_vdd d) @
     [flag_byte (rdn_crystal_ok d)] @ [flag_byte (rdn_analog_ok d)] @
     le_bytes 1 (encoder_sensor d) @ le_bytes 1 (hall_endstop d) @
     le_bytes 1 (reflective_endstop d) @
     le_bytes 2 (light_sensor d)"

section \<open>The specification's side\<close>

subsection \<open>The wire format of section 6, read back\<close>

text \<open>
  A receiver that follows the table of section 6: an unsigned or two's-complement
  little-endian integer of \<open>n\<close> bytes at byte offset \<open>off\<close> of the frame.
\<close>

fun le_uint :: "byte list \<Rightarrow> int" where
  "le_uint [] = 0"
| "le_uint (b # bs) = uint b + 256 * le_uint bs"

definition le_sint :: "byte list \<Rightarrow> int" where
  "le_sint bs = (let u = le_uint bs; m = 256 ^ length bs in if m \<le> 2 * u then u - m else u)"

definition bytes_at :: "nat \<Rightarrow> nat \<Rightarrow> 'a list \<Rightarrow> 'a list" where
  "bytes_at off n xs = take n (drop off xs)"

definition read_u :: "nat \<Rightarrow> nat \<Rightarrow> byte list \<Rightarrow> int" where
  "read_u off n f = le_uint (bytes_at off n f)"

definition read_i :: "nat \<Rightarrow> nat \<Rightarrow> byte list \<Rightarrow> int" where
  "read_i off n f = le_sint (bytes_at off n f)"

definition section6_decode :: "byte list \<Rightarrow> sample" where
  "section6_decode f =
     \<lparr>icm_gyr_x = read_i 2 2 f, icm_gyr_y = read_i 4 2 f, icm_gyr_z = read_i 6 2 f,
      icm_acc_x = read_i 8 2 f, icm_acc_y = read_i 10 2 f, icm_acc_z = read_i 12 2 f,
      icm_temp = read_i 14 2 f,
      mmc_mag_x = read_i 16 4 f, mmc_mag_y = read_i 20 4 f, mmc_mag_z = read_i 24 4 f,
      mmc_temp = read_i 28 2 f,
      rdn_serial_dose = read_u 30 4 f, rdn_sen1_dose = read_u 34 4 f,
      rdn_sen2_dose = read_u 38 4 f,
      rdn_serial_intensity = read_u 42 4 f, rdn_sen1_intensity = read_u 46 4 f,
      rdn_sen2_intensity = read_u 50 4 f,
      rdn_temp = read_i 54 2 f, rdn_vdd = read_i 56 2 f,
      rdn_crystal_ok = (read_u 58 1 f \<noteq> 0), rdn_analog_ok = (read_u 59 1 f \<noteq> 0),
      encoder_sensor = read_u 60 1 f, hall_endstop = read_u 61 1 f,
      reflective_endstop = read_u 62 1 f,
      light_sensor = read_u 63 2 f\<rparr>"

subsection \<open>The declared ranges of section 3\<close>

text \<open>
  The ranges the data model declares for a TelemetrySample: the widths of the wire
  format, and 0 or 1 for the two endstop bytes.
\<close>

definition in_declared_ranges :: "sample \<Rightarrow> bool" where
  "in_declared_ranges d =
     (fields_fit d \<and> hall_endstop d \<in> {0, 1} \<and> reflective_endstop d \<in> {0, 1})"

section \<open>Scenarios and bounded noise\<close>

text \<open>The baseline dictionary as \<open>main\<close> leaves it for each \<open>--scenario\<close>.\<close>

definition scenario_baseline :: "scenario \<Rightarrow> baseline" where
  "scenario_baseline sc =
     baseline (apply_scenario sc (init DEFAULT_HOST DEFAULT_PORT DEFAULT_RATE))"

text \<open>
  Every standard normal deviate of a call lies within \<open>k\<close> standard deviations, and
  every number from \<open>random.random()\<close> in \<open>[0, 1)\<close>.
\<close>

definition bounded_draws :: "real \<Rightarrow> draws \<Rightarrow> bool" where
  "bounded_draws k d =
     (\<bar>z_gyro_x d\<bar> \<le> k \<and> \<bar>z_gyro_y d\<bar> \<le> k \<and> \<bar>z_gyro_z d\<bar> \<le> k \<and>
      \<bar>z_accel_x d\<bar> \<le> k \<and> \<bar>z_accel_y d\<bar> \<le> k \<and> \<bar>z_accel_z d\<bar> \<le> k \<and>
      \<bar>z_imu_temp d\<bar> \<le> k \<and> \<bar>z_mag_temp d\<bar> \<le> k \<and>
      \<bar>z_serial_dose d\<bar> \<le> k \<and> \<bar>z_sen1_dose d\<bar> \<le> k \<and> \<bar>z_sen2_dose d\<bar> \<le> k \<and>
      \<bar>z_rdn_temp d\<bar> \<le> k \<and> \<bar>z_rdn_vdd d\<bar> \<le> k \<and> \<bar>z_light d\<bar> \<le> k \<and>
      0 \<le> u_crystal d \<and> u_crystal d < 1 \<and> 0 \<le> u_analog d \<and> u_analog d < 1 \<and>
      0 \<le> u_encoder d \<and> u_encoder d < 1 \<and> 0 \<le> u_hall d \<and> u_hall d < 1 \<and>
      0 \<le> u_reflective d \<and> u_reflective d < 1)"

text \<open>None of the three dose deviates is below \<open>k\<close>.\<close>

definition dose_draws_above :: "real \<Rightarrow> draws \<Rightarrow> bool" where
  "dose_draws_above k d = (k \<le> z_serial_dose d \<and> k \<le> z_sen1_dose d \<and> k \<le> z_sen2_dose d)"

text \<open>None of the three doses of a sample is negative.\<close>

definition doses_nonneg :: "sample \<Rightarrow> bool" where
  "doses_nonneg g = (0 \<le> rdn_serial_dose g \<and> 0 \<le> rdn_sen1_dose g \<and> 0 \<le> rdn_sen2_dose g)"

section \<open>Shorthands for one iteration\<close>

text \<open>How long an iteration that began at \<open>t_start\<close> sleeps.\<close>

definition sleep_time :: "tick_env \<Rightarrow> simulator \<Rightarrow> real" where
  "sleep_time e s =
     max 0 (float_sub (float_div 1.0 (rate s)) (float_sub (t_end e) (t_start e)))"

text \<open>What \<open>_send_telemetry\<close> leaves in the trace during an iteration from state \<open>s\<close>.\<close>

definition tick_events :: "tick_env \<Rightarrow> simulator \<Rightarrow> event list" where
  "tick_events e s = snd (send_telemetry (socket s) (net_ok e) (generate_telemetry (rnd e) s))"

section \<open>Concrete inputs\<close>

text \<open>All fields zero and both flags false, except \<open>icm_gyr_x = 100\<close>.\<close>

definition sample_gyro100 :: sample where
  "sample_gyro100 =
     \<lparr>icm_gyr_x = 100, icm_gyr_y = 0, icm_gyr_z = 0,
      icm_acc_x = 0, icm_acc_y = 0, icm_acc_z = 0, icm_temp = 0,
      mmc_mag_x = 0, mmc_mag_y = 0, mmc_mag_z = 0, mmc_temp = 0,
      rdn_serial_dose = 0, rdn_sen1_dose = 0, rdn_sen2_dose = 0,
      rdn_serial_intensity = 0, rdn_sen1_intensity = 0, rdn_sen2_intensity = 0,
      rdn_temp = 0, rdn_vdd = 0, rdn_crystal_ok = False, rdn_analog_ok = False,
      encoder_sensor = 0, hall_endstop = 0, reflective_endstop = 0, light_sensor = 0\<rparr>"

text \<open>The same sample with a radiation dose of \<open>-1\<close>, which \<open>I\<close> does not take.\<close>

definition sample_negative_dose :: sample where
  "sample_negative_dose = sample_gyro100\<lparr>rdn_serial_dose := - 1\<rparr>"

text \<open>A simulator as \<open>main\<close> builds it with no arguments.\<close>

definition default_simulator :: simulator where
  "default_simulator = init DEFAULT_HOST DEFAULT_PORT DEFAULT_RATE"

text \<open>Noise-free draws: every deviate 0, every uniform number one half.\<close>

definition quiet_draws :: draws where
  "quiet_draws =
     \<lparr>z_gyro_x = 0, z_gyro_y = 0, z_gyro_z = 0, z_accel_x = 0, z_accel_y = 0, z_accel_z = 0,
      z_imu_temp = 0, z_mag_temp = 0, z_serial_dose = 0, z_sen1_dose = 0, z_sen2_dose = 0,
      z_rdn_temp = 0, z_rdn_vdd = 0, u_crystal = 0.5, u_analog = 0.5, u_encoder = 0.5,
      u_hall = 0.5, u_reflective = 0.5, z_light = 0\<rparr>"

text \<open>An iteration with quiet draws, a working network and no Ctrl+C.\<close>

definition quiet_env :: tick_env where
  "quiet_env = \<lparr>rnd = quiet_draws, net_ok = True, t_start = 0, t_end = 0, interrupt = None\<rparr>"

text \<open>The default simulator as \<open>start\<close> hands it to the loop.\<close>

definition started_simulator :: simulator where
  "started_simulator = default_simulator\<lparr>running := True, socket := OpenSocket\<rparr>"

text \<open>The frame of the noise-free sample of that state.\<close>

definition quiet_frame :: "byte list" where
  "quiet_frame = [0x12, 0x06] @ payload_bytes (generate_telemetry quiet_draws started_simulator)"

text \<open>
  The anomaly scenario where \<open>sin(2 * orbit_phase) = -1\<close>, the bottom of the radiation
  belt factor.
\<close>

definition belt_simulator :: simulator where
  "belt_simulator =
     (apply_scenario Anomaly default_simulator)
       \<lparr>running := True, socket := OpenSocket, orbit_phase := 3 * pi / 4\<rparr>"

text \<open>Quiet draws, except a serial-dose deviate of \<open>-7.5\<close>.\<close>

definition low_serial_draws :: draws where
  "low_serial_draws = quiet_draws\<lparr>z_serial_dose := - 7.5\<rparr>"

definition low_serial_env :: tick_env where
  "low_serial_env = quiet_env\<lparr>rnd := low_serial_draws\<rparr>"

text \<open>The points at which the datagram of the iteration has already been handed over.\<close>

definition after_send :: "interrupt_point \<Rightarrow> bool" where
  "after_send p =
     (p = AfterSend \<or> p = AfterMissionTime \<or> p = AfterOrbitPhase \<or> p = AfterThermalCycle \<or>
      p = AfterStatus \<or> p = DuringSleep)"

text \<open>A quiet iteration in whose sleep Ctrl+C arrives.\<close>

definition ctrl_c_env :: tick_env where
  "ctrl_c_env = quiet_env\<lparr>interrupt := Some DuringSleep\<rparr>"

text \<open>A quiet iteration in which the network refuses the datagram.\<close>

definition net_down_env :: tick_env where
  "net_down_env = quiet_env\<lparr>net_ok := False\<rparr>"

text \<open>Quiet draws, except a sensor-1 dose deviate of \<open>-7\<close>.\<close>

definition low_sen1_draws :: draws where
  "low_sen1_draws = quiet_draws\<lparr>z_sen1_dose := - 7\<rparr>"

text \<open>The started default simulator a quarter turn on: \<open>sin(2 * orbit_phase) = 0\<close> again.\<close>

definition quarter_simulator :: simulator where
  "quarter_simulator = started_simulator\<lparr>orbit_phase := pi / 2\<rparr>"



text \<open>Every deviate ten standard deviations down, every uniform number one half.\<close>

definition extreme_draws :: draws where
  "extreme_draws =
     \<lparr>z_gyro_x = - 10, z_gyro_y = - 10, z_gyro_z = - 10, z_accel_x = - 10, z_accel_y = - 10,
      z_accel_z = - 10, z_imu_temp = - 10, z_mag_temp = - 10, z_serial_dose = - 10,
      z_sen1_dose = - 10, z_sen2_dose = - 10, z_rdn_temp = - 10, z_rdn_vdd = - 10,
      u_crystal = 0.5, u_analog = 0.5, u_encoder = 0.5, u_hall = 0.5, u_reflective = 0.5,
      z_light = - 10\<rparr>"

text \<open>Every deviate 6.3 standard deviations down, every uniform number one half.\<close>

definition rough_draws :: draws where
  "rough_draws =
     \<lparr>z_gyro_x = - 63 / 10, z_gyro_y = - 63 / 10, z_gyro_z = - 63 / 10,
      z_accel_x = - 63 / 10, z_accel_y = - 63 / 10, z_accel_z = - 63 / 10,
      z_imu_temp = - 63 / 10, z_mag_temp = - 63 / 10, z_serial_dose = - 63 / 10,
      z_sen1_dose = - 63 / 10, z_sen2_dose = - 63 / 10, z_rdn_temp = - 63 / 10,
      z_rdn_vdd = - 63 / 10, u_crystal = 0.5, u_analog = 0.5, u_encoder = 0.5, u_hall = 0.5,
      u_reflective = 0.5, z_light = - 63 / 10\<rparr>"

section \<open>Properties of the float arithmetic\<close>

lemma pow2_powr: "pow2 k = 2 powr (of_int k)"
proof (cases "0 \<le> k")
  case True
  then have "2 powr (of_int k) = (2 :: real) ^ nat k"
    by (simp add: powr_realpow [symmetric])
  with True show ?thesis by (simp add: pow2_def)
next
  case False
  then have "2 powr (of_int k) = 1 / (2 :: real) ^ nat (- k)"
    using powr_minus_divide [of 2 "of_int (- k)"] by (simp add: powr_realpow [symmetric])
  with False show ?thesis by (simp add: pow2_def)
qed


lemma pow2_Suc: "pow2 (k + 1) = 2 * pow2 k"
  by (simp add: pow2_powr powr_add)





section \<open>Properties of the encoder\<close>

lemma length_le_bytes [simp]: "length (le_bytes n v) = n"
  by (induction n arbitrary: v) simp_all

lemma le_uint_le_bytes: "le_uint (le_bytes n v) = v mod 256 ^ n"
proof (induction n arbitrary: v)
  case 0
  show ?case by simp
next
  case (Suc n)
  have "uint (word_of_int v :: byte) = v mod 256"
    by (simp add: uint_word_of_int)
  moreover have "v mod (256 * 256 ^ n) = 256 * (v div 256 mod 256 ^ n) + v mod 256"
    using zmod_zmult2_eq [of "256 ^ n" v 256] by simp
  ultimately show ?case using Suc by simp
qed

lemma le_uint_unsigned: "0 \<le> v \<Longrightarrow> v < 256 ^ n \<Longrightarrow> le_uint (le_bytes n v) = v"
  by (simp add: le_uint_le_bytes)

lemma le_sint_signed:
  assumes "- (256 ^ n) \<le> 2 * v" "2 * v < 256 ^ n"
  shows "le_sint (le_bytes n v) = v"
proof (cases "0 \<le> v")
  case True
  then have "v mod 256 ^ n = v" using assms by simp
  then show ?thesis using assms True by (simp add: le_sint_def le_uint_le_bytes Let_def)
next
  case False
  then have "v mod 256 ^ n = v + 256 ^ n"
  proof -
    have "(v + 256 ^ n) mod 256 ^ n = v + 256 ^ n"
      using assms False by (intro mod_pos_pos_trivial) simp_all
    then show ?thesis by simp
  qed
  then show ?thesis using assms False by (simp add: le_sint_def le_uint_le_bytes Let_def)
qed

lemma telemetry_format_list:
  "telemetry_format =
     [Fmt_h, Fmt_h, Fmt_h, Fmt_h, Fmt_h, Fmt_h, Fmt_h, Fmt_i, Fmt_i, Fmt_i, Fmt_h,
      Fmt_I, Fmt_I, Fmt_I, Fmt_I, Fmt_I, Fmt_I, Fmt_h, Fmt_h, Fmt_bool, Fmt_bool,
      Fmt_B, Fmt_B, Fmt_B, Fmt_H]"
  by (simp add: telemetry_format_def eval_nat_numeral)

lemma pack_item_h: "pack_item Fmt_h (PyInt v) = (if i16 v then Inr (le_bytes 2 v) else Inl StructError)"
  by (simp add: i16_def)

lemma pack_item_i: "pack_item Fmt_i (PyInt v) = (if i32 v then Inr (le_bytes 4 v) else Inl StructError)"
  by (simp add: i32_def)

lemma pack_item_I: "pack_item Fmt_I (PyInt v) = (if u32 v then Inr (le_bytes 4 v) else Inl StructError)"
  by (simp add: u32_def)

lemma pack_item_B: "pack_item Fmt_B (PyInt v) = (if u8 v then Inr (le_bytes 1 v) else Inl StructError)"
  by (simp add: u8_def)

lemma pack_item_H: "pack_item Fmt_H (PyInt v) = (if u16 v then Inr (le_bytes 2 v) else Inl StructError)"
  by (simp add: u16_def)

lemma pack_item_bool: "pack_item Fmt_bool (PyBool b) = Inr [flag_byte b]"
  by (simp add: flag_byte_def)

lemmas pack_item_eqs = pack_item_h pack_item_i pack_item_I pack_item_B pack_item_H pack_item_bool

lemma struct_pack_telemetry:
  "struct_pack telemetry_format (telemetry_args d) =
     (if fields_fit d then Inr (payload_bytes d) else Inl StructError)"
  unfolding telemetry_format_list telemetry_args_def fields_fit_def payload_bytes_def
  by (simp only: struct_pack.simps pack_item_eqs) (simp del: le_bytes.simps)

lemma pack_telemetry_eq:
  "pack_telemetry d =
     (if fields_fit d then (Some (payload_bytes d), []) else (None, [PrintPackError]))"
  by (simp add: pack_telemetry_def struct_pack_telemetry)

lemma length_payload_bytes: "length (payload_bytes d) = 63"
  by (simp add: payload_bytes_def)

lemma struct_pack_header:
  "struct_pack [Fmt_B, Fmt_B] [PyInt FRAME_START_SYMBOL, PyInt TELEMETRY_FRAME] = Inr [0x12, 0x06]"
  by (simp add: FRAME_START_SYMBOL_def TELEMETRY_FRAME_def)

lemma payload_bytes_nonempty: "payload_bytes d \<noteq> []"
  using length_payload_bytes [of d] by auto

lemma send_telemetry_eq:
  "send_telemetry sk ok d =
     (if \<not> fields_fit d then (Inr (), [PrintPackError])
      else if sk = OpenSocket \<and> ok then (Inr (), [Datagram ([0x12, 0x06] @ payload_bytes d)])
      else (Inr (), [PrintSendError]))"
  by (simp add: send_telemetry_def pack_telemetry_eq struct_pack_header payload_bytes_nonempty
      sendto_def del: struct_pack.simps)

lemma read_i_16: "i16 v \<Longrightarrow> le_sint (le_bytes 2 v) = v"
  by (rule le_sint_signed) (simp_all add: i16_def)

lemma read_i_32: "i32 v \<Longrightarrow> le_sint (le_bytes 4 v) = v"
  by (rule le_sint_signed) (simp_all add: i32_def)

lemma read_u_32: "u32 v \<Longrightarrow> le_uint (le_bytes 4 v) = v"
  by (rule le_uint_unsigned) (simp_all add: u32_def)

lemma read_u_16: "u16 v \<Longrightarrow> le_uint (le_bytes 2 v) = v"
  by (rule le_uint_unsigned) (simp_all add: u16_def)

lemma read_u_8: "u8 v \<Longrightarrow> le_uint (le_bytes (Suc 0) v) = v"
  using le_uint_unsigned [of v 1] by (simp add: u8_def)
lemma read_flag: "(le_uint [flag_byte b] \<noteq> 0) = b"
  by (simp add: flag_byte_def)

lemmas read_eqs = read_i_16 read_i_32 read_u_32 read_u_16 read_u_8 read_flag

lemma section6_decode_frame:
  assumes "fields_fit d"
  shows "section6_decode ([0x12, 0x06] @ payload_bytes d) = d"
  using assms
  by (cases d)
     (simp add: section6_decode_def read_i_def read_u_def bytes_at_def payload_bytes_def
      fields_fit_def read_eqs del: le_bytes.simps le_uint.simps)

section \<open>Properties of the telemetry model\<close>

lemma py_int_bounds:
  assumes "real_of_int a \<le> x" "x \<le> real_of_int b"
  shows "a \<le> py_int x \<and> py_int x \<le> b"
proof (cases "0 \<le> x")
  case True
  have "a \<le> \<lfloor>x\<rfloor>" using assms(1) by (simp add: le_floor_iff)
  moreover have "\<lfloor>x\<rfloor> \<le> b" using assms(2) by linarith
  ultimately show ?thesis using True by (simp add: py_int_def)
next
  case False
  have "\<lceil>x\<rceil> \<le> b" using assms(2) by (simp add: ceiling_le_iff)
  moreover have "a \<le> \<lceil>x\<rceil>" using assms(1) by linarith
  ultimately show ?thesis using False by (simp add: py_int_def)
qed

lemma py_int_i16: "- 32768 \<le> x \<Longrightarrow> x \<le> 32767 \<Longrightarrow> i16 (py_int x)"
  using py_int_bounds [of "- 32768" x 32767] by (simp add: i16_def)

lemma py_int_i32: "- 2147483648 \<le> x \<Longrightarrow> x \<le> 2147483647 \<Longrightarrow> i32 (py_int x)"
  using py_int_bounds [of "- 2147483648" x 2147483647] by (simp add: i32_def)

lemma py_int_u32: "0 \<le> x \<Longrightarrow> x \<le> 4294967295 \<Longrightarrow> u32 (py_int x)"
  using py_int_bounds [of 0 x 4294967295] by (simp add: u32_def)

lemma py_int_u16: "0 \<le> x \<Longrightarrow> x \<le> 65535 \<Longrightarrow> u16 (py_int x)"
  using py_int_bounds [of 0 x 65535] by (simp add: u16_def)

lemma py_int_u8: "0 \<le> x \<Longrightarrow> x \<le> 255 \<Longrightarrow> u8 (py_int x)"
  using py_int_bounds [of 0 x 255] by (simp add: u8_def)

lemma py_int_ge: "real_of_int a \<le> x \<Longrightarrow> a \<le> py_int x"
proof (cases "0 \<le> x")
  case True
  assume "real_of_int a \<le> x"
  then have "a \<le> \<lfloor>x\<rfloor>" by (simp add: le_floor_iff)
  then show ?thesis using True by (simp add: py_int_def)
next
  case False
  assume "real_of_int a \<le> x"
  then have "a \<le> \<lceil>x\<rceil>" by linarith
  then show ?thesis using False by (simp add: py_int_def)
qed

lemma py_int_le: "x \<le> real_of_int b \<Longrightarrow> py_int x \<le> b"
proof (cases "0 \<le> x")
  case True
  assume "x \<le> real_of_int b"
  then have "\<lfloor>x\<rfloor> \<le> b" by linarith
  then show ?thesis using True by (simp add: py_int_def)
next
  case False
  assume "x \<le> real_of_int b"
  then have "\<lceil>x\<rceil> \<le> b" by (simp add: ceiling_le_iff)
  then show ?thesis using False by (simp add: py_int_def)
qed

lemma py_int_le_u32: "x \<le> 4294967295 \<Longrightarrow> py_int x \<le> 4294967295"
  using py_int_le [of x 4294967295] by simp

lemma py_int_nonneg: "0 \<le> x \<Longrightarrow> 0 \<le> py_int x"
  using py_int_ge [of 0 x] by simp


lemmas double_eval =
  nearest_double_def ilog2_def pow2_def round_half_even_def Let_def compute_bitlen
  float_add_def float_sub_def float_mul_def float_div_def

text \<open>No deviate of \<open>random.gauss\<close> is ten standard deviations from the mean.\<close>

lemma ln2_bound: "ln (2 :: real) \<le> 50 / 53"
proof -
  have "(2 :: real) \<le> 1 + 50 / 53 + (50 / 53)\<^sup>2 / 2"
    by (simp add: power2_eq_square)
  also have "\<dots> \<le> exp (50 / 53)"
    by (rule exp_lower_Taylor_quadratic) simp
  finally have "ln (2 :: real) \<le> ln (exp (50 / 53))"
    by (intro ln_mono) simp_all
  then show ?thesis by simp
qed

lemma gauss_deviate_bound:
  assumes "\<bar>c\<bar> \<le> 1" and "0 \<le> v" and "v \<le> 1 - 1 / 2 ^ 53"
  shows "\<bar>gauss_deviate c v\<bar> \<le> 10"
proof -
  have p: "(1 :: real) / 2 ^ 53 \<le> 1 - v" "0 < 1 - v" "1 - v \<le> 1"
    using assms by simp_all
  have "ln ((1 :: real) / 2 ^ 53) \<le> ln (1 - v)"
    using p by (intro ln_mono) simp_all
  moreover have "ln ((1 :: real) / 2 ^ 53) = - (53 * ln 2)"
  proof -
    have "ln ((1 :: real) / 2 ^ 53) = ln 1 - ln (2 ^ 53)"
      by (rule ln_divide_pos) simp_all
    also have "ln ((2 :: real) ^ 53) = real 53 * ln 2"
      by (rule ln_realpow)
    finally show ?thesis by simp
  qed
  ultimately have "- 2 * ln (1 - v) \<le> 106 * ln 2"
    by linarith
  also have "\<dots> \<le> 100"
    using ln2_bound by linarith
  finally have "sqrt (- 2 * ln (1 - v)) \<le> sqrt 100"
    by (rule real_sqrt_le_mono)
  moreover have "sqrt 100 = (10 :: real)"
    using real_sqrt_abs [of 10] by simp
  moreover have "0 \<le> sqrt (- 2 * ln (1 - v))"
    using p by (simp add: ln_le_zero_iff mult_nonpos_nonneg)
  ultimately have s: "0 \<le> sqrt (- 2 * ln (1 - v))" "sqrt (- 2 * ln (1 - v)) \<le> 10"
    by simp_all
  have "\<bar>gauss_deviate c v\<bar> = \<bar>c\<bar> * sqrt (- 2 * ln (1 - v))"
    using s(1) by (simp add: gauss_deviate_def abs_mult)
  also have "\<dots> \<le> 1 * 10"
    using assms(1) s by (intro mult_mono) simp_all
  finally show ?thesis by simp
qed

lemma scenario_baseline_cases:
  "scenario_baseline Nominal =
     \<lparr>gyro_noise = 3602879701896397 / 2 ^ 55, accel_noise = 3602879701896397 / 2 ^ 56,
      mag_noise = 5, temp_variation = 2, radiation_base = 1000, radiation_variation = 50\<rparr>"
  "scenario_baseline Anomaly =
     \<lparr>gyro_noise = 1351079888211149 / 2 ^ 52, accel_noise = 3602879701896397 / 2 ^ 56,
      mag_noise = 5, temp_variation = 2, radiation_base = 1000, radiation_variation = 100\<rparr>"
  "scenario_baseline Eclipse =
     \<lparr>gyro_noise = 3602879701896397 / 2 ^ 55, accel_noise = 3602879701896397 / 2 ^ 56,
      mag_noise = 5, temp_variation = 4, radiation_base = 1000, radiation_variation = 50\<rparr>"
  by (simp_all add: scenario_baseline_def init_def double_eval)

text \<open>Bounds on the baseline constants that hold in all three scenarios.\<close>

lemma scenario_baseline_bounds:
  "0 \<le> gyro_noise (scenario_baseline sc) \<and> gyro_noise (scenario_baseline sc) \<le> 31 / 100 \<and>
   0 \<le> accel_noise (scenario_baseline sc) \<and> accel_noise (scenario_baseline sc) \<le> 3 / 50 \<and>
   0 \<le> temp_variation (scenario_baseline sc) \<and> temp_variation (scenario_baseline sc) \<le> 4 \<and>
   radiation_base (scenario_baseline sc) = 1000 \<and>
   radiation_variation (scenario_baseline sc) = (if sc = Anomaly then 100 else 50)"
  by (cases sc) (simp_all add: scenario_baseline_cases)

lemma gauss_bound:
  fixes z sigma k m mu :: real
  assumes "\<bar>z\<bar> \<le> k" "0 \<le> sigma" "sigma \<le> m"
  shows "\<bar>gauss z mu sigma - mu\<bar> \<le> k * m"
proof -
  have "\<bar>z * sigma\<bar> = \<bar>z\<bar> * \<bar>sigma\<bar>" by (rule abs_mult)
  also have "\<dots> = \<bar>z\<bar> * sigma" using assms by simp
  also have "\<dots> \<le> k * m" using assms by (intro mult_mono) auto
  finally show ?thesis by (simp add: gauss_def)
qed

text \<open>
  With every draw within ten standard deviations, every field but the three doses is in
  range and no dose is too large: only a negative dose can take a sample out of range.
\<close>

lemma generate_ranges_iff:
  assumes d: "bounded_draws 10 d" and b: "baseline s = scenario_baseline sc"
  shows "in_declared_ranges (generate_telemetry d s) = doses_nonneg (generate_telemetry d s)"
proof -
  let ?b = "scenario_baseline sc"
  let ?g = "generate_telemetry d s"
  have B: "0 \<le> gyro_noise ?b" "gyro_noise ?b \<le> 31 / 100"
    "0 \<le> temp_variation ?b" "temp_variation ?b \<le> 4" "radiation_base ?b = 1000"
    "0 \<le> radiation_variation ?b" "radiation_variation ?b \<le> 100"
    using scenario_baseline_bounds [of sc] by simp_all
  have A: "0 \<le> accel_noise ?b" "accel_noise ?b \<le> 3 / 50"
    using scenario_baseline_bounds [of sc] by simp_all
  have Z: "\<bar>z_gyro_x d\<bar> \<le> 10" "\<bar>z_gyro_y d\<bar> \<le> 10" "\<bar>z_gyro_z d\<bar> \<le> 10"
    "\<bar>z_accel_x d\<bar> \<le> 10" "\<bar>z_accel_y d\<bar> \<le> 10" "\<bar>z_accel_z d\<bar> \<le> 10"
    "\<bar>z_imu_temp d\<bar> \<le> 10" "\<bar>z_mag_temp d\<bar> \<le> 10"
    "\<bar>z_serial_dose d\<bar> \<le> 10" "\<bar>z_sen1_dose d\<bar> \<le> 10" "\<bar>z_sen2_dose d\<bar> \<le> 10"
    "\<bar>z_rdn_temp d\<bar> \<le> 10" "\<bar>z_rdn_vdd d\<bar> \<le> 10" "\<bar>z_light d\<bar> \<le> 10"
    using d by (simp_all add: bounded_draws_def)
  have U: "0 \<le> u_encoder d" "u_encoder d < 1"
    using d by (simp_all add: bounded_draws_def)
  have milli: "(0.001 :: real) = 1 / 1000"
    by simp
  note so = sin_ge_minus_one [of "orbit_phase s"] sin_le_one [of "orbit_phase s"]
  note co = cos_ge_minus_one [of "orbit_phase s"] cos_le_one [of "orbit_phase s"]
  have sm: "0.7 \<le> radiation_multiplier (orbit_phase s)"
    "radiation_multiplier (orbit_phase s) \<le> 1.3"
    unfolding radiation_multiplier_def
    using sin_ge_minus_one [of "orbit_phase s * 2"] sin_le_one [of "orbit_phase s * 2"]
    by linarith+
  note unf = generate_telemetry_def Let_def b sample.simps B(5)
  have 1: "i16 (icm_gyr_x ?g)"
    unfolding unf
    by (rule py_int_i16) (use gauss_bound [OF Z(1) B(1) B(2), of 0] so in linarith)+
  have 2: "i16 (icm_gyr_y ?g)"
    unfolding unf
    by (rule py_int_i16) (use gauss_bound [OF Z(2) B(1) B(2), of 0] co in linarith)+
  have 3: "i16 (icm_gyr_z ?g)"
    unfolding unf
    by (rule py_int_i16) (use gauss_bound [OF Z(3) B(1) B(2), of 0] in linarith)+
  have 4: "i16 (icm_acc_x ?g)"
    unfolding unf
    by (rule py_int_i16) (use gauss_bound [OF Z(4) A, of 0] in linarith)+
  have 5: "i16 (icm_acc_y ?g)"
    unfolding unf
    by (rule py_int_i16) (use gauss_bound [OF Z(5) A, of 0] in linarith)+
  have 6: "i16 (icm_acc_z ?g)"
  proof -
    let ?x = "gauss (z_accel_z d) (1 / 1000) (accel_noise ?b)"
    have "\<bar>?x - 1 / 1000\<bar> \<le> 10 * (3 / 50)"
      by (rule gauss_bound [OF Z(6) A])
    then have "- 32768 \<le> ?x * 1000" "?x * 1000 \<le> 32767"
      by linarith+
    then show ?thesis
      unfolding unf milli by (rule py_int_i16)
  qed
  have 7: "i16 (icm_temp ?g)"
    unfolding unf
    by (rule py_int_i16)
       (use gauss_bound [OF Z(7) B(3) B(4), of 0] sin_ge_minus_one [of "thermal_cycle s"]
          sin_le_one [of "thermal_cycle s"] in linarith)+
  have 8: "i32 (mmc_mag_x ?g)"
    unfolding unf by (rule py_int_i32) (use so in linarith)+
  have 9: "i32 (mmc_mag_y ?g)"
    unfolding unf by (rule py_int_i32) (use co in linarith)+
  have 10: "i32 (mmc_mag_z ?g)"
    unfolding unf
    by (rule py_int_i32)
       (use sin_ge_minus_one [of "orbit_phase s * 0.7"] sin_le_one [of "orbit_phase s * 0.7"]
         in linarith)+
  have 11: "i16 (mmc_temp ?g)"
    unfolding unf
    by (rule py_int_i16)
       (use gauss_bound [OF Z(8) B(3) B(4), of 0] sin_ge_minus_one [of "thermal_cycle s + 0.5"]
          sin_le_one [of "thermal_cycle s + 0.5"] in linarith)+
  have 12: "rdn_serial_dose ?g \<le> 4294967295"
    unfolding unf
    by (rule py_int_le_u32) (use gauss_bound [OF Z(9) B(6) B(7), of 0] sm in linarith)
  have 13: "rdn_sen1_dose ?g \<le> 4294967295"
    unfolding unf
    by (rule py_int_le_u32) (use gauss_bound [OF Z(10) B(6) B(7), of 0] sm in linarith)
  have 14: "rdn_sen2_dose ?g \<le> 4294967295"
    unfolding unf
    by (rule py_int_le_u32) (use gauss_bound [OF Z(11) B(6) B(7), of 0] sm in linarith)
  have 15: "u32 (rdn_serial_intensity ?g)"
    unfolding unf
    by (rule py_int_u32)
       (use sin_ge_minus_one [of "orbit_phase s * 3"] sin_le_one [of "orbit_phase s * 3"]
         in linarith)+
  have 16: "u32 (rdn_sen1_intensity ?g)"
    unfolding unf
    by (rule py_int_u32)
       (use sin_ge_minus_one [of "orbit_phase s * 3 + 0.2"]
          sin_le_one [of "orbit_phase s * 3 + 0.2"] in linarith)+
  have 17: "u32 (rdn_sen2_intensity ?g)"
    unfolding unf
    by (rule py_int_u32)
       (use sin_ge_minus_one [of "orbit_phase s * 3 + 0.4"]
          sin_le_one [of "orbit_phase s * 3 + 0.4"] in linarith)+
  have 18: "i16 (rdn_temp ?g)"
    unfolding unf
    by (rule py_int_i16)
       (use gauss_bound [OF Z(12), of 1 1 0] sin_ge_minus_one [of "thermal_cycle s + 1.0"]
          sin_le_one [of "thermal_cycle s + 1.0"] in linarith)+
  have 19: "i16 (rdn_vdd ?g)"
    unfolding unf
    by (rule py_int_i16) (use gauss_bound [OF Z(13), of 10 10 0] in linarith)+
  have 20: "u8 (encoder_sensor ?g)"
  proof -
    have "uniform (u_encoder d) 0 255 = 255 * u_encoder d"
      by (simp add: uniform_def)
    then have "0 \<le> uniform (u_encoder d) 0 255" "uniform (u_encoder d) 0 255 \<le> 255"
      using U by simp_all
    then show ?thesis
      unfolding unf by (rule py_int_u8)
  qed
  have 21: "u8 (hall_endstop ?g)" "hall_endstop ?g \<in> {0, 1}"
    unfolding unf by (simp_all add: u8_def)
  have 22: "u8 (reflective_endstop ?g)" "reflective_endstop ?g \<in> {0, 1}"
    unfolding unf by (simp_all add: u8_def)
  have 23: "u16 (light_sensor ?g)"
    unfolding unf
    by (rule py_int_u16) (use gauss_bound [OF Z(14), of 50 50 0] so in linarith)+
  have "u32 (rdn_serial_dose ?g) = (0 \<le> rdn_serial_dose ?g)"
    "u32 (rdn_sen1_dose ?g) = (0 \<le> rdn_sen1_dose ?g)"
    "u32 (rdn_sen2_dose ?g) = (0 \<le> rdn_sen2_dose ?g)"
    using 12 13 14 by (simp_all add: u32_def)
  then show ?thesis
    unfolding in_declared_ranges_def fields_fit_def doses_nonneg_def
    using 1 2 3 4 5 6 7 8 9 10 11 15 16 17 18 19 20 21 22 23 by blast
qed

text \<open>
  The doses are not negative when, in the anomaly scenario, no dose deviate is below
  \<open>-6.3\<close>; in the other two scenarios ten standard deviations are not enough to make
  one negative.
\<close>

lemma generate_doses_nonneg:
  assumes d: "bounded_draws 10 d" and b: "baseline s = scenario_baseline sc"
    and a: "sc = Anomaly \<longrightarrow> dose_draws_above (- 63 / 10) d"
  shows "doses_nonneg (generate_telemetry d s)"
proof -
  let ?b = "scenario_baseline sc"
  let ?g = "generate_telemetry d s"
  let ?v = "radiation_variation ?b"
  have B: "radiation_base ?b = 1000" "?v = (if sc = Anomaly then 100 else 50)"
    using scenario_baseline_bounds [of sc] by simp_all
  have "\<bar>z_serial_dose d\<bar> \<le> 10" "\<bar>z_sen1_dose d\<bar> \<le> 10" "\<bar>z_sen2_dose d\<bar> \<le> 10"
    using d by (simp_all add: bounded_draws_def)
  then have Z: "- 10 \<le> z_serial_dose d" "- 10 \<le> z_sen1_dose d" "- 10 \<le> z_sen2_dose d"
    by linarith+
  have above: "- 630 \<le> z * ?v" if "- 10 \<le> z" and "sc = Anomaly \<longrightarrow> - 63 / 10 \<le> z" for z
  proof (cases "sc = Anomaly")
    case True
    then have "?v = 100"
      using B(2) by simp
    then show ?thesis
      using that(2) True by simp
  next
    case False
    then have "?v = 50"
      using B(2) by simp
    then show ?thesis
      using that(1) by simp
  qed
  have low: "- 630 \<le> z_serial_dose d * ?v" "- 630 \<le> z_sen1_dose d * ?v"
    "- 630 \<le> z_sen2_dose d * ?v"
    using Z a by (auto simp: dose_draws_above_def intro!: above)
  have sm: "0.7 \<le> radiation_multiplier (orbit_phase s)"
    unfolding radiation_multiplier_def
    using sin_ge_minus_one [of "orbit_phase s * 2"] by linarith
  have g: "gauss z 0 ?v = z * ?v" for z
    by (simp add: gauss_def)
  note unf = generate_telemetry_def Let_def b sample.simps B(1) g
  have "0 \<le> rdn_serial_dose ?g"
    unfolding unf by (rule py_int_nonneg) (use low(1) sm in linarith)
  moreover have "0 \<le> rdn_sen1_dose ?g"
    unfolding unf by (rule py_int_nonneg) (use low(2) sm in linarith)
  moreover have "0 \<le> rdn_sen2_dose ?g"
    unfolding unf by (rule py_int_nonneg) (use low(3) sm in linarith)
  ultimately show ?thesis
    by (simp add: doses_nonneg_def)
qed

lemma generate_in_declared_ranges:
  assumes "bounded_draws 10 d" and "baseline s = scenario_baseline sc"
    and "sc = Anomaly \<longrightarrow> dose_draws_above (- 63 / 10) d"
  shows "in_declared_ranges (generate_telemetry d s)"
  using generate_ranges_iff [OF assms(1,2)] generate_doses_nonneg [OF assms] by simp

section \<open>Properties of the driver loop\<close>

lemma send_telemetry_returns: "fst (send_telemetry sk ok d) = Inr ()"
  by (simp add: send_telemetry_eq)

lemma send_telemetry_split:
  "send_telemetry sk ok d = (Inr (), snd (send_telemetry sk ok d))"
  using send_telemetry_returns [of sk ok d] by (cases "send_telemetry sk ok d") simp

lemma tick_uninterrupted:
  assumes "interrupt e = None" "rate s \<noteq> 0"
  shows "tick e s =
           (Inr (), update_state s,
            tick_events e s @ [print_status (update_state s), Sleep (sleep_time e s)])"
proof -
  let ?d = "generate_telemetry (rnd e) s"
  have "send_telemetry (socket s) (net_ok e) ?d = (Inr (), tick_events e s)"
    unfolding tick_events_def by (rule send_telemetry_split)
  then show ?thesis
    using assms by (simp add: tick_def Let_def update_state_def sleep_time_def)
qed

lemma tick_datagram:
  assumes "Datagram f \<in> set (snd (snd (tick e s)))"
  shows "Datagram f \<in> set (tick_events e s)"
  using assms send_telemetry_returns [of "socket s" "net_ok e" "generate_telemetry (rnd e) s"]
  by (auto simp: tick_def Let_def tick_events_def print_status_def
      split: if_splits prod.splits sum.splits)

lemma send_telemetry_datagram:
  assumes "Datagram f \<in> set (snd (send_telemetry sk ok d))"
  shows "fields_fit d \<and> sk = OpenSocket \<and> ok \<and> f = [0x12, 0x06] @ payload_bytes d"
  using assms by (auto simp: send_telemetry_eq split: if_splits)

lemma loop_datagram:
  assumes "Datagram f \<in> set (snd (snd (simulation_loop es s)))"
  shows "\<exists>d. fields_fit d \<and> f = [0x12, 0x06] @ payload_bytes d"
  using assms
proof (induction es arbitrary: s)
  case Nil
  then show ?case by (simp split: if_splits)
next
  case (Cons e es)
  show ?case
  proof (cases "tick e s")
    case (fields r s' evs)
    have evs: "Datagram f \<in> set evs \<Longrightarrow> ?thesis"
      using tick_datagram [of f e s] send_telemetry_datagram fields
      by (fastforce simp: tick_events_def)
    show ?thesis
    proof (cases r)
      case (Inl err)
      with Cons.prems fields evs show ?thesis by (simp split: if_splits)
    next
      case (Inr u)
      obtain r2 s2 evs2 where l: "simulation_loop es s' = (r2, s2, evs2)"
        by (cases "simulation_loop es s'")
      with Cons.prems fields Inr have "Datagram f \<in> set evs \<or> Datagram f \<in> set evs2"
        by (auto split: if_splits)
      then show ?thesis using evs Cons.IH [of s'] l by auto
    qed
  qed
qed

lemma stop_events: "Datagram f \<notin> set (snd (stop s))"
  by (simp add: stop_def Let_def)

lemma start_datagram:
  assumes "Datagram f \<in> set (snd (snd (start es s)))"
  shows "\<exists>d. fields_fit d \<and> f = [0x12, 0x06] @ payload_bytes d"
proof -
  let ?s0 = "s\<lparr>running := True, socket := OpenSocket\<rparr>"
  obtain r s1 evs where l: "simulation_loop es ?s0 = (r, s1, evs)"
    by (cases "simulation_loop es ?s0")
  obtain s2 evs2 where st: "stop s1 = (s2, evs2)"
    by (cases "stop s1")
  have "Datagram f \<notin> set evs2"
    using stop_events [of f s1] st by simp
  with assms l st have "Datagram f \<in> set evs"
    by (auto simp: start_def Let_def split: outcome.splits py_error.splits)
  then show ?thesis
    using loop_datagram [of f es ?s0] l by simp
qed

lemma sample_gyro100_in_ranges: "in_declared_ranges sample_gyro100"
  by (simp add: in_declared_ranges_def fields_fit_def sample_gyro100_def
      i16_def i32_def u32_def u16_def u8_def)

lemma gyro100_bytes:
  "bytes_at 2 2 ([0x12, 0x06] @ payload_bytes sample_gyro100) = [0x64, 0x00]"
proof -
  have "le_bytes 2 100 = [0x64, 0x00]"
    by (simp add: numeral_2_eq_2)
  then show ?thesis
    by (simp add: bytes_at_def payload_bytes_def sample_gyro100_def del: le_bytes.simps)
qed

lemma flag_slices:
  "bytes_at 58 1 ([0x12, 0x06] @ payload_bytes d) = [flag_byte (rdn_crystal_ok d)]"
  "bytes_at 59 1 ([0x12, 0x06] @ payload_bytes d) = [flag_byte (rdn_analog_ok d)]"
  by (simp_all add: bytes_at_def payload_bytes_def del: le_bytes.simps)

section \<open>The concrete runs evaluated\<close>

lemma quiet_draws_bounded: "bounded_draws 10 quiet_draws"
  by (simp add: bounded_draws_def quiet_draws_def)

lemma started_baseline: "baseline started_simulator = scenario_baseline Nominal"
  by (simp add: started_simulator_def default_simulator_def scenario_baseline_def init_def)

lemma quiet_sample_fits: "fields_fit (generate_telemetry quiet_draws started_simulator)"
  using generate_in_declared_ranges [OF quiet_draws_bounded started_baseline]
  by (simp add: in_declared_ranges_def)

lemma tick_events_quiet: "tick_events quiet_env started_simulator = [Datagram quiet_frame]"
  using quiet_sample_fits
  by (simp add: tick_events_def send_telemetry_eq quiet_env_def quiet_frame_def
      started_simulator_def)

lemma started_rate: "rate started_simulator \<noteq> 0"
  by (simp add: started_simulator_def default_simulator_def init_def DEFAULT_RATE_def)

lemma tick_quiet:
  "tick quiet_env started_simulator =
     (Inr (), update_state started_simulator,
      [Datagram quiet_frame, print_status (update_state started_simulator),
       Sleep (sleep_time quiet_env started_simulator)])"
proof -
  have "interrupt quiet_env = None"
    by (simp add: quiet_env_def)
  from tick_uninterrupted [OF this started_rate] show ?thesis
    by (simp add: tick_events_quiet)
qed

lemma loop_quiet:
  "simulation_loop [quiet_env] started_simulator =
     (StillRunning, update_state started_simulator,
      [Datagram quiet_frame, print_status (update_state started_simulator),
       Sleep (sleep_time quiet_env started_simulator)])"
proof -
  have "running started_simulator" "running (update_state started_simulator)"
    by (simp_all add: started_simulator_def update_state_def)
  then show ?thesis
    by (simp add: tick_quiet)
qed

lemma start_quiet:
  "start [quiet_env] default_simulator =
     (StillRunning, update_state started_simulator,
      [SocketOpened, PrintStarted, Datagram quiet_frame,
       print_status (update_state started_simulator),
       Sleep (sleep_time quiet_env started_simulator)])"
  using loop_quiet by (simp add: start_def Let_def started_simulator_def)

lemma belt_multiplier: "radiation_multiplier (orbit_phase belt_simulator) = 0.7"
proof -
  have "3 * pi / 4 * 2 = 3 / 2 * pi"
    by simp
  then have "sin (3 * pi / 4 * 2) = - 1"
    by (simp only: sin_3over2_pi)
  then show ?thesis
    by (simp add: radiation_multiplier_def belt_simulator_def)
qed

lemma py_int_of_int: "py_int (of_int k) = k"
  by (simp add: py_int_def)

lemma low_serial_dose:
  "rdn_serial_dose (generate_telemetry low_serial_draws belt_simulator) = - 50"
proof -
  have "radiation_base (baseline belt_simulator) = 1000"
    "radiation_variation (baseline belt_simulator) = 100"
    by (simp_all add: belt_simulator_def default_simulator_def init_def)
  then have "rdn_serial_dose (generate_telemetry low_serial_draws belt_simulator)
      = py_int (1000 * 0.7 + gauss (- 7.5) 0 100)"
    by (simp add: generate_telemetry_def Let_def belt_multiplier low_serial_draws_def)
  also have "1000 * 0.7 + gauss (- 7.5) 0 100 = of_int (- 50)"
    by (simp add: gauss_def)
  finally show ?thesis
    by (simp only: py_int_of_int)
qed

lemma low_serial_unfit: "\<not> fields_fit (generate_telemetry low_serial_draws belt_simulator)"
  by (simp add: fields_fit_def low_serial_dose u32_def)

lemma datagrams_set: "set (datagrams evs) = {f. Datagram f \<in> set evs}"
  by (induction evs rule: datagrams.induct) auto

lemma datagrams_empty: "(datagrams evs = []) = (\<forall>f. Datagram f \<notin> set evs)"
  using datagrams_set [of evs] by auto

lemma pack_telemetry_None: "(fst (pack_telemetry d) = None) = (\<not> fields_fit d)"
  by (simp add: pack_telemetry_eq)

lemma frame_header: "([0x12, 0x06] @ bs) ! 0 = (0x12 :: byte)" "([0x12, 0x06] @ bs) ! 1 = (0x06 :: byte)"
  by simp_all

lemma datagrams_append: "datagrams (xs @ ys) = datagrams xs @ datagrams ys"
  by (induction xs rule: datagrams.induct) simp_all

lemma tick_events_count: "length (datagrams (tick_events e s)) \<le> 1"
  by (simp add: tick_events_def send_telemetry_eq)

lemma tick_split:
  "\<exists>r s' rest. tick e s = (r, s', rest) \<and> datagrams rest \<in> {[], datagrams (tick_events e s)}"
proof -
  have "send_telemetry (socket s) (net_ok e) (generate_telemetry (rnd e) s)
      = (Inr (), tick_events e s)"
    unfolding tick_events_def by (rule send_telemetry_split)
  then show ?thesis
    by (simp add: tick_def Let_def datagrams_append print_status_def)
qed

lemma tick_datagram_count: "length (datagrams (snd (snd (tick e s)))) \<le> 1"
  using tick_split [of e s] tick_events_count [of e s] by auto

lemma tick_keeps:
  "running (fst (snd (tick e s))) = running s \<and> socket (fst (snd (tick e s))) = socket s \<and>
   rate (fst (snd (tick e s))) = rate s \<and> baseline (fst (snd (tick e s))) = baseline s"
proof -
  have "send_telemetry (socket s) (net_ok e) (generate_telemetry (rnd e) s)
      = (Inr (), tick_events e s)"
    unfolding tick_events_def by (rule send_telemetry_split)
  then show ?thesis
    by (simp add: tick_def Let_def)
qed

lemma loop_datagram_count: "length (datagrams (snd (snd (simulation_loop es s)))) \<le> length es"
proof (induction es arbitrary: s)
  case Nil
  show ?case by simp
next
  case (Cons e es)
  obtain r s' evs where t: "tick e s = (r, s', evs)"
    by (cases "tick e s")
  have c: "length (datagrams evs) \<le> 1"
    using tick_datagram_count [of e s] t by simp
  obtain r2 s2 evs2 where l: "simulation_loop es s' = (r2, s2, evs2)"
    by (cases "simulation_loop es s'")
  have "length (datagrams evs2) \<le> length es"
    using Cons.IH [of s'] l by simp
  with c t l show ?case
    by (cases r) (simp_all add: datagrams_append)
qed

lemma loop_append_running:
  assumes "simulation_loop pre s = (StillRunning, s1, evs1)"
  shows "simulation_loop (pre @ rest) s =
           (case simulation_loop rest s1 of (r, s2, evs2) \<Rightarrow> (r, s2, evs1 @ evs2))"
  using assms
proof (induction pre arbitrary: s evs1)
  case Nil
  then show ?case
    by (cases rest) (auto split: if_splits prod.splits)
next
  case (Cons e pre)
  obtain r s' evs where t: "tick e s = (r, s', evs)"
    by (cases "tick e s")
  show ?case
  proof (cases r)
    case (Inl err)
    with Cons.prems t show ?thesis by (simp split: if_splits)
  next
    case (Inr u)
    obtain r2 s2 evs2 where l: "simulation_loop pre s' = (r2, s2, evs2)"
      by (cases "simulation_loop pre s'")
    with Cons.prems t Inr have "r2 = StillRunning" "s2 = s1" "evs1 = evs @ evs2" "running s"
      by (auto split: if_splits)
    with Cons.IH [of s' evs2] l t Inr show ?thesis
      by (simp split: prod.splits)
  qed
qed

lemma loop_uninterrupted:
  assumes "\<forall>x \<in> set pre. interrupt x = None" "rate s \<noteq> 0" "running s"
  shows "\<exists>s1 evs1. simulation_loop pre s = (StillRunning, s1, evs1) \<and> running s1 \<and>
           rate s1 = rate s \<and> socket s1 = socket s"
  using assms
proof (induction pre arbitrary: s)
  case Nil
  then show ?case by simp
next
  case (Cons e pre)
  have t: "tick e s =
      (Inr (), update_state s,
       tick_events e s @ [print_status (update_state s), Sleep (sleep_time e s)])"
    using Cons.prems by (intro tick_uninterrupted) simp_all
  have k: "rate (update_state s) = rate s" "running (update_state s)"
    "socket (update_state s) = socket s"
    using Cons.prems by (simp_all add: update_state_def)
  from Cons.IH [of "update_state s"] Cons.prems k
  obtain s1 evs1 where "simulation_loop pre (update_state s) = (StillRunning, s1, evs1)"
    "running s1" "rate s1 = rate s" "socket s1 = socket s"
    by auto
  with t Cons.prems show ?case by simp
qed

lemma tick_interrupted:
  assumes "interrupt e = Some p" "after_send p" "rate s \<noteq> 0"
  shows "fst (tick e s) = Inl KeyboardInterrupt"
proof -
  have "send_telemetry (socket s) (net_ok e) (generate_telemetry (rnd e) s)
      = (Inr (), tick_events e s)"
    unfolding tick_events_def by (rule send_telemetry_split)
  then show ?thesis
    using assms by (auto simp: tick_def Let_def after_send_def)
qed

lemma loop_keeps:
  "socket (fst (snd (simulation_loop es s))) = socket s \<and>
   rate (fst (snd (simulation_loop es s))) = rate s \<and>
   baseline (fst (snd (simulation_loop es s))) = baseline s"
proof (induction es arbitrary: s)
  case Nil
  show ?case by simp
next
  case (Cons e es)
  obtain r s' evs where t: "tick e s = (r, s', evs)"
    by (cases "tick e s")
  have k: "socket s' = socket s" "rate s' = rate s" "baseline s' = baseline s"
    using tick_keeps [of e s] t by simp_all
  obtain r2 s2 evs2 where l: "simulation_loop es s' = (r2, s2, evs2)"
    by (cases "simulation_loop es s'")
  with Cons.IH [of s'] k have "socket s2 = socket s" "rate s2 = rate s" "baseline s2 = baseline s"
    by simp_all
  with t l k show ?case
    by (cases r) simp_all
qed

lemma start_interrupted:
  assumes "simulation_loop es (s\<lparr>running := True, socket := OpenSocket\<rparr>)
             = (Raised KeyboardInterrupt, s1, evs)"
  shows "start es s =
           (Returned, s1\<lparr>running := False, socket := ClosedSocket\<rparr>,
            [SocketOpened, PrintStarted] @ evs @ [PrintStopping, SocketClosed, PrintStopped])"
proof -
  have "socket s1 = OpenSocket"
    using loop_keeps [of es "s\<lparr>running := True, socket := OpenSocket\<rparr>"] assms by simp
  then show ?thesis
    using assms by (simp add: start_def Let_def stop_def)
qed

lemma closed_socket_silent: "datagrams (snd (send_telemetry ClosedSocket ok d)) = []"
  by (simp add: send_telemetry_eq)

lemma quiet_mag_x: "mmc_mag_x (generate_telemetry quiet_draws started_simulator) = - 25000"
proof -
  have "orbit_phase started_simulator = 0"
    by (simp add: started_simulator_def default_simulator_def init_def)
  then have "mmc_mag_x (generate_telemetry quiet_draws started_simulator) = py_int (of_int (- 25000))"
    by (simp add: generate_telemetry_def Let_def)
  then show ?thesis
    by (simp only: py_int_of_int)
qed

lemma first_orbit_phase:
  "orbit_phase (update_state started_simulator) = 5764607523034235 / 2 ^ 59"
proof -
  have "orbit_phase started_simulator = 0"
    by (simp add: started_simulator_def default_simulator_def init_def)
  then have "orbit_phase (update_state started_simulator) = float_add 0 (nearest_double 0.01)"
    by (simp add: update_state_def)
  also have "\<dots> = 5764607523034235 / 2 ^ 59"
    by (simp add: double_eval)
  finally show ?thesis .
qed

lemma advanced_mag_x:
  "mmc_mag_x (generate_telemetry quiet_draws (update_state started_simulator)) \<noteq> - 25000"
proof -
  let ?p = "5764607523034235 / 2 ^ 59 :: real"
  let ?x = "- 25000 + 5000 * sin ?p"
  have "?p < 2"
    by simp
  then have "?p < pi"
    using pi_ge_two by linarith
  then have pos: "0 < sin ?p"
    by (intro sin_gt_zero) simp_all
  have "sin ?p \<le> 1"
    by (rule sin_le_one)
  with pos have x: "- 25000 < ?x" "?x < 0"
    by linarith+
  then have "py_int ?x = \<lceil>?x\<rceil>"
    by (simp add: py_int_def)
  moreover have "- 25000 < \<lceil>?x\<rceil>"
    using x(1) by (simp add: less_ceiling_iff)
  moreover have "mmc_mag_x (generate_telemetry quiet_draws (update_state started_simulator)) =
      py_int (- 25000 + 5000 * sin (orbit_phase (update_state started_simulator)))"
    by (simp add: generate_telemetry_def Let_def)
  ultimately show ?thesis
    by (simp only: first_orbit_phase)
qed

lemma read_mag_x:
  assumes "fields_fit d"
  shows "read_i 16 4 ([0x12, 0x06] @ payload_bytes d) = mmc_mag_x d"
proof -
  have "mmc_mag_x (section6_decode ([0x12, 0x06] @ payload_bytes d)) = mmc_mag_x d"
    using section6_decode_frame [OF assms] by simp
  then show ?thesis
    by (simp add: section6_decode_def)
qed

lemma low_sen1_dose:
  "rdn_sen1_dose (generate_telemetry low_sen1_draws belt_simulator) = - 70"
proof -
  have "radiation_base (baseline belt_simulator) = 1000"
    "radiation_variation (baseline belt_simulator) = 100"
    by (simp_all add: belt_simulator_def default_simulator_def init_def)
  then have "rdn_sen1_dose (generate_telemetry low_sen1_draws belt_simulator)
      = py_int (1000 * 0.7 * 0.9 + gauss (- 7) 0 100)"
    by (simp add: generate_telemetry_def Let_def belt_multiplier low_sen1_draws_def)
  also have "1000 * 0.7 * 0.9 + gauss (- 7) 0 100 = of_int (- 70)"
    by (simp add: gauss_def)
  finally show ?thesis
    by (simp only: py_int_of_int)
qed

lemma started_multiplier: "radiation_multiplier (orbit_phase started_simulator) = 1"
  by (simp add: radiation_multiplier_def started_simulator_def default_simulator_def init_def)

lemma quarter_multiplier: "radiation_multiplier (orbit_phase quarter_simulator) = 1"
  by (simp add: radiation_multiplier_def quarter_simulator_def)

lemma started_intensity:
  "rdn_serial_intensity (generate_telemetry quiet_draws started_simulator) = 100"
proof -
  have "orbit_phase started_simulator = 0"
    by (simp add: started_simulator_def default_simulator_def init_def)
  then have "rdn_serial_intensity (generate_telemetry quiet_draws started_simulator)
      = py_int (of_int 100)"
    by (simp add: generate_telemetry_def Let_def)
  then show ?thesis
    by (simp only: py_int_of_int)
qed

lemma quarter_intensity:
  "rdn_serial_intensity (generate_telemetry quiet_draws quarter_simulator) = 80"
proof -
  have "pi / 2 * 3 = 3 / 2 * pi"
    by simp
  then have "sin (pi / 2 * 3) = - 1"
    by (simp only: sin_3over2_pi)
  then have "rdn_serial_intensity (generate_telemetry quiet_draws quarter_simulator)
      = py_int (of_int 80)"
    by (simp add: generate_telemetry_def Let_def quarter_simulator_def)
  then show ?thesis
    by (simp only: py_int_of_int)
qed

lemma dose_by_multiplier:
  "rdn_serial_dose (generate_telemetry d s) =
     py_int (radiation_base (baseline s) * radiation_multiplier (orbit_phase s)
             + z_serial_dose d * radiation_variation (baseline s))"
  "rdn_sen1_dose (generate_telemetry d s) =
     py_int (radiation_base (baseline s) * radiation_multiplier (orbit_phase s) * 0.9
             + z_sen1_dose d * radiation_variation (baseline s))"
  "rdn_sen2_dose (generate_telemetry d s) =
     py_int (radiation_base (baseline s) * radiation_multiplier (orbit_phase s) * 1.1
             + z_sen2_dose d * radiation_variation (baseline s))"
  by (simp_all add: generate_telemetry_def Let_def gauss_def)

lemma belt_baseline: "baseline belt_simulator = scenario_baseline Anomaly"
  by (simp add: belt_simulator_def scenario_baseline_def default_simulator_def)







section \<open>The claims\<close>

subsection \<open>The encoder and the wire format\<close>

text \<open>
  C1. A sample whose fields are in their declared ranges goes out as one datagram of
  65 bytes: the two header bytes, then 63 payload bytes from which a reader that follows
  the table of section 6 (fixed offsets, fixed widths, little-endian) recovers every
  field, the two health flags being the single bytes 0 or 1 at offsets 58 and 59.
\<close>

theorem frame_layout:
  assumes "in_declared_ranges d"
  shows "\<exists>f. send_telemetry OpenSocket True d = (Inr (), [Datagram f]) \<and>
             length f = 65 \<and> take 2 f = [0x12, 0x06] \<and> length (drop 2 f) = 63 \<and>
             section6_decode f = d \<and>
             bytes_at 58 1 f = [if rdn_crystal_ok d then 1 else 0] \<and>
             bytes_at 59 1 f = [if rdn_analog_ok d then 1 else 0]"
proof -
  let ?f = "[0x12, 0x06] @ payload_bytes d"
  have fit: "fields_fit d"
    using assms by (simp add: in_declared_ranges_def)
  then have "send_telemetry OpenSocket True d = (Inr (), [Datagram ?f])"
    by (simp add: send_telemetry_eq)
  moreover have "length ?f = 65" "take 2 ?f = [0x12, 0x06]" "length (drop 2 ?f) = 63"
    by (simp_all add: length_payload_bytes)
  moreover have "section6_decode ?f = d"
    using fit by (rule section6_decode_frame)
  moreover have "bytes_at 58 1 ?f = [if rdn_crystal_ok d then 1 else 0]"
    "bytes_at 59 1 ?f = [if rdn_analog_ok d then 1 else 0]"
    using flag_slices [of d] by (simp_all add: flag_byte_def)
  ultimately show ?thesis by blast
qed

theorem frame_layout_witness:
  "in_declared_ranges sample_gyro100 \<and>
   (\<exists>f. send_telemetry OpenSocket True sample_gyro100 = (Inr (), [Datagram f]) \<and>
        length f = 65 \<and> take 2 f = [0x12, 0x06] \<and> length (drop 2 f) = 63 \<and>
        section6_decode f = sample_gyro100 \<and>
        bytes_at 58 1 f = [0] \<and> bytes_at 59 1 f = [0] \<and> bytes_at 2 2 f = [0x64, 0x00])"
proof -
  have h: "in_declared_ranges sample_gyro100"
    by (rule sample_gyro100_in_ranges)
  then have "fields_fit sample_gyro100"
    by (simp add: in_declared_ranges_def)
  then have s: "send_telemetry OpenSocket True sample_gyro100
      = (Inr (), [Datagram ([0x12, 0x06] @ payload_bytes sample_gyro100)])"
    by (simp add: send_telemetry_eq)
  from frame_layout [OF h] obtain f where
    f: "send_telemetry OpenSocket True sample_gyro100 = (Inr (), [Datagram f])"
      "length f = 65" "take 2 f = [0x12, 0x06]" "length (drop 2 f) = 63"
      "section6_decode f = sample_gyro100"
      "bytes_at 58 1 f = [if rdn_crystal_ok sample_gyro100 then 1 else 0]"
      "bytes_at 59 1 f = [if rdn_analog_ok sample_gyro100 then 1 else 0]"
    by blast
  from f(1) s have "f = [0x12, 0x06] @ payload_bytes sample_gyro100"
    by simp
  then have "bytes_at 2 2 f = [0x64, 0x00]"
    by (simp only: gyro100_bytes)
  moreover have "\<not> rdn_crystal_ok sample_gyro100" "\<not> rdn_analog_ok sample_gyro100"
    by (simp_all add: sample_gyro100_def)
  ultimately show ?thesis
    using h f by auto
qed

text \<open>
  C5. Every frame transmitted, by a call of \<open>_send_telemetry\<close> or anywhere in a run of
  \<open>start\<close>, whatever the sample, the socket and the environment, has at least two
  bytes, the first \<open>0x12\<close> and the second \<open>0x06\<close>.
\<close>

theorem header_bytes:
  assumes "Datagram f \<in> set (snd (send_telemetry sk ok d)) \<or>
           Datagram f \<in> set (snd (snd (start es s)))"
  shows "2 \<le> length f \<and> f ! 0 = 0x12 \<and> f ! 1 = 0x06"
proof -
  from assms obtain d' where "f = [0x12, 0x06] @ payload_bytes d'"
    using send_telemetry_datagram start_datagram by blast
  then show ?thesis by simp
qed

theorem header_bytes_witness:
  "Datagram quiet_frame \<in> set (snd (snd (start [quiet_env] default_simulator))) \<and>
   2 \<le> length quiet_frame \<and> quiet_frame ! 0 = 0x12 \<and> quiet_frame ! 1 = 0x06"
proof -
  have h: "Datagram quiet_frame \<in> set (snd (snd (start [quiet_env] default_simulator)))"
    by (simp add: start_quiet)
  then have "Datagram quiet_frame \<in> set (snd (send_telemetry NoSocket False sample_gyro100)) \<or>
      Datagram quiet_frame \<in> set (snd (snd (start [quiet_env] default_simulator)))"
    by (rule disjI2)
  from h header_bytes [OF this] show ?thesis by simp
qed

text \<open>
  C10. When \<open>_pack_telemetry\<close> returns \<open>None\<close> for the sample of an iteration, that
  iteration puts no datagram on the wire; and every datagram of a run is 65 bytes long,
  its last 63 bytes being a payload that \<open>_pack_telemetry\<close> returned in full.
\<close>

theorem no_partial_datagram:
  "(fst (pack_telemetry (generate_telemetry (rnd e) s)) = None \<longrightarrow>
      datagrams (snd (snd (tick e s))) = []) \<and>
   (Datagram f \<in> set (snd (snd (start es s'))) \<longrightarrow>
      length f = 65 \<and> length (drop 2 f) = 63 \<and>
      (\<exists>d. pack_telemetry d = (Some (drop 2 f), [])))"
proof (intro conjI impI)
  assume "fst (pack_telemetry (generate_telemetry (rnd e) s)) = None"
  then have "\<not> fields_fit (generate_telemetry (rnd e) s)"
    by (simp add: pack_telemetry_None)
  then have "tick_events e s = [PrintPackError]"
    by (simp add: tick_events_def send_telemetry_eq)
  then have "Datagram g \<notin> set (snd (snd (tick e s)))" for g
    using tick_datagram [of g e s] by auto
  then show "datagrams (snd (snd (tick e s))) = []"
    by (simp add: datagrams_empty)
next
  assume "Datagram f \<in> set (snd (snd (start es s')))"
  then obtain d where d: "fields_fit d" "f = [0x12, 0x06] @ payload_bytes d"
    using start_datagram by blast
  then have "pack_telemetry d = (Some (drop 2 f), [])"
    by (simp add: pack_telemetry_eq)
  then have "\<exists>d. pack_telemetry d = (Some (drop 2 f), [])" ..
  then show "length f = 65" "length (drop 2 f) = 63"
    "\<exists>d. pack_telemetry d = (Some (drop 2 f), [])"
    using d by (simp_all add: length_payload_bytes)
qed

theorem no_partial_datagram_witness:
  "fst (pack_telemetry (generate_telemetry (rnd low_serial_env) belt_simulator)) = None \<and>
   datagrams (snd (snd (tick low_serial_env belt_simulator))) = [] \<and>
   Datagram quiet_frame \<in> set (snd (snd (start [quiet_env] default_simulator))) \<and>
   length quiet_frame = 65 \<and> length (drop 2 quiet_frame) = 63 \<and>
   (\<exists>d. pack_telemetry d = (Some (drop 2 quiet_frame), []))"
proof -
  have h1: "fst (pack_telemetry (generate_telemetry (rnd low_serial_env) belt_simulator)) = None"
    using low_serial_unfit
    by (simp add: pack_telemetry_None low_serial_env_def)
  have h2: "Datagram quiet_frame \<in> set (snd (snd (start [quiet_env] default_simulator)))"
    by (simp add: start_quiet)
  from h1 h2
    no_partial_datagram [of low_serial_env belt_simulator quiet_frame "[quiet_env]"
      default_simulator]
  show ?thesis by blast
qed

text \<open>
  C4, as stated, fails: the Model's sample for the anomaly scenario at the bottom of
  the belt factor, with a serial-dose deviate of \<open>-7.5\<close>, has a dose of \<open>-50\<close>;
  \<open>_pack_telemetry\<close> returns \<open>None\<close> for it and \<open>_send_telemetry\<close> sends no frame.
\<close>

theorem encoder_rejects_counterexample:
  "rdn_serial_dose (generate_telemetry low_serial_draws belt_simulator) = - 50 \<and>
   pack_telemetry (generate_telemetry low_serial_draws belt_simulator) = (None, [PrintPackError]) \<and>
   send_telemetry OpenSocket True (generate_telemetry low_serial_draws belt_simulator)
     = (Inr (), [PrintPackError])"
  using low_serial_unfit
  by (simp add: low_serial_dose pack_telemetry_eq send_telemetry_eq)

text \<open>
  C4, amended. Encoding never raises, and it neither truncates nor saturates: for every
  sample \<open>_pack_telemetry\<close> returns the complete 63-byte payload when every field lies
  in the interval of its format, and otherwise prints the packing error and returns
  \<open>None\<close>; \<open>_send_telemetry\<close> then returns normally with no frame sent.
\<close>

theorem encoder_total:
  "pack_telemetry d =
     (if fields_fit d then (Some (payload_bytes d), []) else (None, [PrintPackError])) \<and>
   length (payload_bytes d) = 63 \<and>
   fst (send_telemetry sk ok d) = Inr () \<and>
   (\<not> fields_fit d \<longrightarrow> send_telemetry sk ok d = (Inr (), [PrintPackError]))"
  by (simp add: pack_telemetry_eq length_payload_bytes send_telemetry_eq)

theorem encoder_total_witness:
  "\<not> fields_fit sample_negative_dose \<and>
   pack_telemetry sample_negative_dose = (None, [PrintPackError]) \<and>
   send_telemetry OpenSocket True sample_negative_dose = (Inr (), [PrintPackError]) \<and>
   fields_fit sample_gyro100 \<and>
   pack_telemetry sample_gyro100 = (Some (payload_bytes sample_gyro100), [])"
proof -
  have h1: "\<not> fields_fit sample_negative_dose"
    by (simp add: fields_fit_def sample_negative_dose_def sample_gyro100_def u32_def)
  have h2: "fields_fit sample_gyro100"
    using sample_gyro100_in_ranges by (simp add: in_declared_ranges_def)
  from h1 h2 encoder_total [of sample_negative_dose OpenSocket True]
    encoder_total [of sample_gyro100 OpenSocket True]
  show ?thesis by simp
qed

subsection \<open>The driver loop\<close>

text \<open>
  C9. Let Ctrl+C arrive in an iteration after its \<open>_send_telemetry\<close> and before its
  sleep is over, the iterations before it having run undisturbed. Then \<open>start\<close>
  returns; the trace ends with the socket being closed and holds no datagram after the
  interrupt, at most one per iteration begun; what the world had in store for later
  iterations changes nothing; and in the state left behind the socket is closed and the
  loop flag is off, so that the loop would do nothing and a send would put nothing on
  the wire.
\<close>

theorem stop_mid_tick:
  assumes "\<forall>x \<in> set pre. interrupt x = None" and "rate s \<noteq> 0"
    and "interrupt e = Some p" and "after_send p"
  shows "\<exists>s' evs. start (pre @ e # post) s
             = (Returned, s', evs @ [PrintStopping, SocketClosed, PrintStopped]) \<and>
           length (datagrams evs) \<le> length pre + 1 \<and>
           start (pre @ e # post) s = start (pre @ [e]) s \<and>
           socket s' = ClosedSocket \<and> \<not> running s' \<and>
           simulation_loop post s' = (Returned, s', []) \<and>
           (\<forall>ok d. datagrams (snd (send_telemetry (socket s') ok d)) = [])"
proof -
  let ?s0 = "s\<lparr>running := True, socket := OpenSocket\<rparr>"
  have "rate ?s0 \<noteq> 0" "running ?s0"
    using assms(2) by simp_all
  with loop_uninterrupted [OF assms(1), of ?s0]
  obtain s1 evs1 where pre: "simulation_loop pre ?s0 = (StillRunning, s1, evs1)"
    and s1: "running s1" "rate s1 \<noteq> 0"
    by auto
  obtain r s2 evs2 where t: "tick e s1 = (r, s2, evs2)"
    by (cases "tick e s1")
  have r: "r = Inl KeyboardInterrupt"
    using tick_interrupted [OF assms(3,4) s1(2)] t by simp
  have tail: "simulation_loop (e # rest) s1 = (Raised KeyboardInterrupt, s2, evs2)" for rest
    using t r s1(1) by simp
  have run: "simulation_loop (pre @ e # rest) ?s0 = (Raised KeyboardInterrupt, s2, evs1 @ evs2)"
    for rest
    using loop_append_running [OF pre, of "e # rest"] tail [of rest] by simp
  let ?s' = "s2\<lparr>running := False, socket := ClosedSocket\<rparr>"
  let ?evs = "[SocketOpened, PrintStarted] @ evs1 @ evs2"
  have st: "start (pre @ e # rest) s
      = (Returned, ?s', ?evs @ [PrintStopping, SocketClosed, PrintStopped])" for rest
    using start_interrupted [OF run [of rest]] by simp
  have "length (datagrams evs1) \<le> length pre"
    using loop_datagram_count [of pre ?s0] pre by simp
  moreover have "length (datagrams evs2) \<le> 1"
    using tick_datagram_count [of e s1] t by simp
  ultimately have n: "length (datagrams ?evs) \<le> length pre + 1"
    by (simp add: datagrams_append)
  have same: "start (pre @ e # post) s = start (pre @ [e]) s"
    using st [of post] st [of "[]"] by simp
  have idle: "simulation_loop post ?s' = (Returned, ?s', [])"
    by (cases post) simp_all
  have silent: "\<forall>ok d. datagrams (snd (send_telemetry (socket ?s') ok d)) = []"
    by (simp add: closed_socket_silent)
  from st [of post] n same idle silent show ?thesis
    by (intro exI [of _ ?s'] exI [of _ ?evs]) simp
qed

theorem stop_mid_tick_witness:
  "interrupt quiet_env = None \<and> rate default_simulator \<noteq> 0 \<and>
   interrupt ctrl_c_env = Some DuringSleep \<and> after_send DuringSleep \<and>
   (\<exists>s' evs. start ([quiet_env] @ ctrl_c_env # [quiet_env]) default_simulator
        = (Returned, s', evs @ [PrintStopping, SocketClosed, PrintStopped]) \<and>
      length (datagrams evs) \<le> length [quiet_env] + 1 \<and>
      start ([quiet_env] @ ctrl_c_env # [quiet_env]) default_simulator
        = start ([quiet_env] @ [ctrl_c_env]) default_simulator \<and>
      socket s' = ClosedSocket \<and> \<not> running s' \<and>
      simulation_loop [quiet_env] s' = (Returned, s', []) \<and>
      (\<forall>ok d. datagrams (snd (send_telemetry (socket s') ok d)) = []))"
proof -
  have h0: "interrupt quiet_env = None"
    by (simp add: quiet_env_def)
  then have h1: "\<forall>x \<in> set [quiet_env]. interrupt x = None"
    by simp
  have h2: "rate default_simulator \<noteq> 0"
    by (simp add: default_simulator_def init_def DEFAULT_RATE_def)
  have h3: "interrupt ctrl_c_env = Some DuringSleep"
    by (simp add: ctrl_c_env_def)
  have h4: "after_send DuringSleep"
    by (simp add: after_send_def)
  from h0 h2 h3 h4 stop_mid_tick [OF h1 h2 h3 h4, of "[quiet_env]"]
  show ?thesis by blast
qed

text \<open>
  C8. In an undisturbed iteration of a running loop whose sample cannot be packed, or
  whose datagram the socket or the network refuses, the failure is printed, the
  iteration ends normally with the state advanced as in any other iteration, and the
  loop goes on with the next one.
\<close>

theorem failures_not_fatal:
  assumes "running s" and "rate s \<noteq> 0" and "interrupt e = None"
    and "\<not> fields_fit (generate_telemetry (rnd e) s) \<or> \<not> (socket s = OpenSocket \<and> net_ok e)"
  shows "\<exists>report. report = (if fields_fit (generate_telemetry (rnd e) s)
                                 then PrintSendError else PrintPackError) \<and>
           tick e s = (Inr (), update_state s,
                       [report, print_status (update_state s), Sleep (sleep_time e s)]) \<and>
           running (update_state s) \<and>
           simulation_loop (e # es) s =
             (case simulation_loop es (update_state s) of
                (r, s', evs) \<Rightarrow>
                  (r, s', [report, print_status (update_state s), Sleep (sleep_time e s)] @ evs))"
proof -
  let ?report = "if fields_fit (generate_telemetry (rnd e) s) then PrintSendError else PrintPackError"
  have "tick_events e s = [?report]"
    using assms(4) by (auto simp: tick_events_def send_telemetry_eq)
  with tick_uninterrupted [OF assms(3,2)]
  have t: "tick e s = (Inr (), update_state s,
      [?report, print_status (update_state s), Sleep (sleep_time e s)])"
    by simp
  moreover have "running (update_state s)"
    using assms(1) by (simp add: update_state_def)
  moreover have "simulation_loop (e # es) s =
      (case simulation_loop es (update_state s) of
         (r, s', evs) \<Rightarrow>
           (r, s', [?report, print_status (update_state s), Sleep (sleep_time e s)] @ evs))"
    using assms(1) t by (simp split: prod.splits)
  ultimately show ?thesis by blast
qed

theorem failures_not_fatal_witness:
  "running started_simulator \<and> rate started_simulator \<noteq> 0 \<and> interrupt net_down_env = None \<and>
   \<not> (socket started_simulator = OpenSocket \<and> net_ok net_down_env) \<and>
   tick net_down_env started_simulator =
     (Inr (), update_state started_simulator,
      [PrintSendError, print_status (update_state started_simulator),
       Sleep (sleep_time net_down_env started_simulator)]) \<and>
   running (update_state started_simulator)"
proof -
  have h1: "running started_simulator"
    by (simp add: started_simulator_def)
  have h3: "interrupt net_down_env = None"
    by (simp add: net_down_env_def quiet_env_def)
  have h4: "\<not> (socket started_simulator = OpenSocket \<and> net_ok net_down_env)"
    by (simp add: net_down_env_def)
  then have h4': "\<not> fields_fit (generate_telemetry (rnd net_down_env) started_simulator) \<or>
      \<not> (socket started_simulator = OpenSocket \<and> net_ok net_down_env)"
    by (rule disjI2)
  have fit: "fields_fit (generate_telemetry (rnd net_down_env) started_simulator)"
    using quiet_sample_fits by (simp add: net_down_env_def quiet_env_def)
  from h1 started_rate h3 h4 fit failures_not_fatal [OF h1 started_rate h3 h4', of "[]"]
  show ?thesis by simp
qed




text \<open>
  C3, as stated, fails. The one datagram of the first iteration of a default run
  carries a magnetometer x of \<open>-25000\<close>: the Model's value for the state the iteration
  found, with \<open>orbit_phase = 0\<close>. For the advanced state, with \<open>orbit_phase = 0.01\<close>,
  the Model gives another value. So the sample is taken before the phases advance.
\<close>

theorem tick_order_counterexample:
  "map (read_i 16 4) (datagrams (snd (snd (tick quiet_env started_simulator)))) = [- 25000] \<and>
   mmc_mag_x (generate_telemetry (rnd quiet_env) started_simulator) = - 25000 \<and>
   mmc_mag_x (generate_telemetry (rnd quiet_env) (update_state started_simulator)) \<noteq> - 25000"
proof -
  have "read_i 16 4 quiet_frame = - 25000"
    unfolding quiet_frame_def using read_mag_x [OF quiet_sample_fits] quiet_mag_x by simp
  then have "map (read_i 16 4) (datagrams (snd (snd (tick quiet_env started_simulator)))) = [- 25000]"
    by (simp add: tick_quiet print_status_def)
  moreover have "rnd quiet_env = quiet_draws"
    by (simp add: quiet_env_def)
  ultimately show ?thesis
    using quiet_mag_x advanced_mag_x by simp
qed

text \<open>
  C3, amended. In every iteration with a non-zero rate the steps come in this order:
  the Model is invoked on the state as the iteration finds it, the sample is encoded and
  transmitted, then simulated time and the two phase accumulators are advanced, then the
  status is printed, then the loop sleeps. Ctrl+C right after the send finds the
  datagram out and the state not yet advanced; Ctrl+C after the status line finds the
  state advanced and no sleep begun.
\<close>

theorem tick_order:
  assumes "rate s \<noteq> 0"
  shows "(interrupt e = None \<longrightarrow>
            tick e s =
              (Inr (), update_state s,
               snd (send_telemetry (socket s) (net_ok e) (generate_telemetry (rnd e) s)) @
               [print_status (update_state s), Sleep (sleep_time e s)])) \<and>
         (interrupt e = Some AfterSend \<longrightarrow>
            tick e s =
              (Inl KeyboardInterrupt, s,
               snd (send_telemetry (socket s) (net_ok e) (generate_telemetry (rnd e) s)))) \<and>
         (interrupt e = Some AfterStatus \<longrightarrow>
            tick e s =
              (Inl KeyboardInterrupt, update_state s,
               snd (send_telemetry (socket s) (net_ok e) (generate_telemetry (rnd e) s)) @
               [print_status (update_state s)]))"
proof -
  have "send_telemetry (socket s) (net_ok e) (generate_telemetry (rnd e) s)
      = (Inr (), tick_events e s)"
    unfolding tick_events_def by (rule send_telemetry_split)
  then have
    "(interrupt e = None \<longrightarrow>
        tick e s =
          (Inr (), update_state s,
           tick_events e s @ [print_status (update_state s), Sleep (sleep_time e s)])) \<and>
     (interrupt e = Some AfterSend \<longrightarrow> tick e s = (Inl KeyboardInterrupt, s, tick_events e s)) \<and>
     (interrupt e = Some AfterStatus \<longrightarrow>
        tick e s =
          (Inl KeyboardInterrupt, update_state s,
           tick_events e s @ [print_status (update_state s)]))"
    using assms by (simp add: tick_def Let_def update_state_def sleep_time_def)
  then show ?thesis
    unfolding tick_events_def .
qed

theorem tick_order_witness:
  "rate started_simulator \<noteq> 0 \<and> interrupt quiet_env = None \<and>
   tick quiet_env started_simulator =
     (Inr (), update_state started_simulator,
      [Datagram quiet_frame, print_status (update_state started_simulator),
       Sleep (sleep_time quiet_env started_simulator)]) \<and>
   interrupt (quiet_env\<lparr>interrupt := Some AfterSend\<rparr>) = Some AfterSend \<and>
   tick (quiet_env\<lparr>interrupt := Some AfterSend\<rparr>) started_simulator =
     (Inl KeyboardInterrupt, started_simulator, [Datagram quiet_frame]) \<and>
   interrupt (quiet_env\<lparr>interrupt := Some AfterStatus\<rparr>) = Some AfterStatus \<and>
   tick (quiet_env\<lparr>interrupt := Some AfterStatus\<rparr>) started_simulator =
     (Inl KeyboardInterrupt, update_state started_simulator,
      [Datagram quiet_frame, print_status (update_state started_simulator)])"
proof -
  have h: "interrupt quiet_env = None"
    by (simp add: quiet_env_def)
  have ev: "snd (send_telemetry (socket started_simulator) (net_ok quiet_env)
      (generate_telemetry (rnd quiet_env) started_simulator)) = [Datagram quiet_frame]"
    using tick_events_quiet by (simp add: tick_events_def)
  have ev': "snd (send_telemetry (socket started_simulator) (net_ok (quiet_env\<lparr>interrupt := i\<rparr>))
      (generate_telemetry (rnd (quiet_env\<lparr>interrupt := i\<rparr>)) started_simulator))
      = [Datagram quiet_frame]" for i
    using ev by simp
  from h started_rate
    tick_order [OF started_rate, of quiet_env]
    tick_order [OF started_rate, of "quiet_env\<lparr>interrupt := Some AfterSend\<rparr>"]
    tick_order [OF started_rate, of "quiet_env\<lparr>interrupt := Some AfterStatus\<rparr>"]
  show ?thesis
    by (simp add: ev ev' sleep_time_def)
qed

subsection \<open>The telemetry model\<close>

text \<open>
  C2, as stated, fails for the intensity channels. At \<open>orbit_phase = 0\<close> and at
  \<open>orbit_phase = pi / 2\<close> the belt factor is the same, 1, and so is the serial dose,
  yet the serial intensity is 100 at the first and 80 at the second: the factor does
  not determine it.
\<close>

theorem belt_factor_counterexample:
  "radiation_multiplier (orbit_phase started_simulator) = 1 \<and>
   radiation_multiplier (orbit_phase quarter_simulator) = 1 \<and>
   rdn_serial_dose (generate_telemetry quiet_draws started_simulator) = 1000 \<and>
   rdn_serial_dose (generate_telemetry quiet_draws quarter_simulator) = 1000 \<and>
   rdn_serial_intensity (generate_telemetry quiet_draws started_simulator) = 100 \<and>
   rdn_serial_intensity (generate_telemetry quiet_draws quarter_simulator) = 80"
proof -
  have b: "radiation_base (baseline started_simulator) = 1000"
    "radiation_base (baseline quarter_simulator) = 1000"
    by (simp_all add: quarter_simulator_def started_simulator_def default_simulator_def init_def)
  have z: "z_serial_dose quiet_draws = 0"
    by (simp add: quiet_draws_def)
  have "py_int (1000 * 1 + 0 * x) = 1000" for x
    using py_int_of_int [of 1000] by simp
  then have "rdn_serial_dose (generate_telemetry quiet_draws started_simulator) = 1000"
    "rdn_serial_dose (generate_telemetry quiet_draws quarter_simulator) = 1000"
    by (simp_all only: dose_by_multiplier started_multiplier quarter_multiplier b z)
  then show ?thesis
    by (simp add: started_multiplier quarter_multiplier started_intensity quarter_intensity)
qed

text \<open>
  C2, amended. For every state and every outcome of the random source, the three dose
  channels are the base dose times one common belt factor
  \<open>1 + 0.3 * sin (2 * orbit_phase)\<close>, then times the sensor's own scale (none, 0.9, 1.1),
  plus the sensor's own noise, truncated; so two states with the same baseline and the
  same factor give the same doses for the same draws. The three intensity channels do
  not use the factor: each is its own sine of three times the orbit phase, truncated.
\<close>

theorem radiation_channels:
  "(let g = generate_telemetry d s; b = baseline s;
        m = 1 + 0.3 * sin (2 * orbit_phase s)
    in rdn_serial_dose g = py_int (radiation_base b * m + z_serial_dose d * radiation_variation b) \<and>
       rdn_sen1_dose g
         = py_int (radiation_base b * m * 0.9 + z_sen1_dose d * radiation_variation b) \<and>
       rdn_sen2_dose g
         = py_int (radiation_base b * m * 1.1 + z_sen2_dose d * radiation_variation b) \<and>
       rdn_serial_intensity g = py_int (100 + 20 * sin (3 * orbit_phase s)) \<and>
       rdn_sen1_intensity g = py_int (95 + 18 * sin (3 * orbit_phase s + 0.2)) \<and>
       rdn_sen2_intensity g = py_int (105 + 22 * sin (3 * orbit_phase s + 0.4))) \<and>
   (baseline s' = baseline s \<and> sin (2 * orbit_phase s') = sin (2 * orbit_phase s) \<longrightarrow>
      rdn_serial_dose (generate_telemetry d s') = rdn_serial_dose (generate_telemetry d s) \<and>
      rdn_sen1_dose (generate_telemetry d s') = rdn_sen1_dose (generate_telemetry d s) \<and>
      rdn_sen2_dose (generate_telemetry d s') = rdn_sen2_dose (generate_telemetry d s))"
proof -
  have m: "radiation_multiplier p = 1 + 0.3 * sin (2 * p)" for p
    by (simp add: radiation_multiplier_def mult.commute)
  have c: "x * 3 = 3 * x" for x :: real
    by simp
  have i: "rdn_serial_intensity (generate_telemetry d s) = py_int (100 + 20 * sin (3 * orbit_phase s))"
    "rdn_sen1_intensity (generate_telemetry d s) = py_int (95 + 18 * sin (3 * orbit_phase s + 0.2))"
    "rdn_sen2_intensity (generate_telemetry d s) = py_int (105 + 22 * sin (3 * orbit_phase s + 0.4))"
    by (simp_all add: generate_telemetry_def Let_def c)
  show ?thesis
    unfolding Let_def dose_by_multiplier m i by simp
qed

theorem radiation_channels_witness:
  "baseline quarter_simulator = baseline started_simulator \<and>
   sin (2 * orbit_phase quarter_simulator) = sin (2 * orbit_phase started_simulator) \<and>
   rdn_serial_dose (generate_telemetry quiet_draws quarter_simulator)
     = rdn_serial_dose (generate_telemetry quiet_draws started_simulator) \<and>
   rdn_sen1_dose (generate_telemetry quiet_draws quarter_simulator)
     = rdn_sen1_dose (generate_telemetry quiet_draws started_simulator) \<and>
   rdn_sen2_dose (generate_telemetry quiet_draws quarter_simulator)
     = rdn_sen2_dose (generate_telemetry quiet_draws started_simulator)"
proof -
  have h1: "baseline quarter_simulator = baseline started_simulator"
    by (simp add: quarter_simulator_def)
  have h2: "sin (2 * orbit_phase quarter_simulator) = sin (2 * orbit_phase started_simulator)"
    by (simp add: quarter_simulator_def started_simulator_def default_simulator_def init_def)
  from h1 h2 radiation_channels [of quiet_draws started_simulator quarter_simulator]
  show ?thesis by blast
qed

text \<open>
  C7, as stated, fails. In the anomaly scenario at the bottom of the belt factor, a
  sensor-1 dose deviate of \<open>-7\<close> makes the Model return a dose of \<open>-70\<close>, which is
  not an unsigned 32-bit value.
\<close>

theorem model_ranges_counterexample:
  "baseline belt_simulator = scenario_baseline Anomaly \<and>
   rdn_sen1_dose (generate_telemetry low_sen1_draws belt_simulator) = - 70 \<and>
   \<not> u32 (rdn_sen1_dose (generate_telemetry low_sen1_draws belt_simulator)) \<and>
   \<not> in_declared_ranges (generate_telemetry low_sen1_draws belt_simulator)"
proof -
  have "baseline belt_simulator = scenario_baseline Anomaly"
    by (rule belt_baseline)
  moreover have "\<not> u32 (rdn_sen1_dose (generate_telemetry low_sen1_draws belt_simulator))"
    by (simp add: low_sen1_dose u32_def)
  ultimately show ?thesis
    by (simp add: low_sen1_dose in_declared_ranges_def fields_fit_def)
qed

text \<open>
  C7, amended. Take any state under the baseline of one of the three scenarios and any
  outcome of the random source with every Gaussian deviate within ten standard
  deviations (\<open>random.gauss\<close> returns none beyond 8.58) and every uniform number in
  \<open>[0, 1)\<close>. Then every numeric field of the sample is in its declared width and
  signedness, except that a radiation dose can be negative: the sample is in range
  exactly when its three doses are not negative. That is so in every nominal and
  eclipse run, and in an anomaly run whenever no dose deviate is below \<open>-6.3\<close>. The
  Model clamps nothing.
\<close>

theorem model_ranges:
  assumes "baseline s = scenario_baseline sc" and "bounded_draws 10 d"
  shows "in_declared_ranges (generate_telemetry d s) = doses_nonneg (generate_telemetry d s) \<and>
         (sc \<noteq> Anomaly \<longrightarrow> in_declared_ranges (generate_telemetry d s)) \<and>
         (dose_draws_above (- 63 / 10) d \<longrightarrow> in_declared_ranges (generate_telemetry d s))"
  using generate_ranges_iff [OF assms(2,1)] generate_in_declared_ranges [OF assms(2,1)]
  by blast

theorem model_ranges_witness:
  "baseline started_simulator = scenario_baseline Nominal \<and> bounded_draws 10 extreme_draws \<and>
   Nominal \<noteq> Anomaly \<and>
   in_declared_ranges (generate_telemetry extreme_draws started_simulator) \<and>
   baseline belt_simulator = scenario_baseline Anomaly \<and> bounded_draws 10 rough_draws \<and>
   dose_draws_above (- 63 / 10) rough_draws \<and>
   in_declared_ranges (generate_telemetry rough_draws belt_simulator) \<and>
   doses_nonneg (generate_telemetry rough_draws belt_simulator)"
proof -
  have h1: "bounded_draws 10 extreme_draws"
    by (simp add: bounded_draws_def extreme_draws_def)
  have h2: "bounded_draws 10 rough_draws"
    by (simp add: bounded_draws_def rough_draws_def)
  have h3: "dose_draws_above (- 63 / 10) rough_draws"
    by (simp add: dose_draws_above_def rough_draws_def)
  have h0: "Nominal \<noteq> Anomaly"
    by simp
  from h0 h1 h2 h3 started_baseline belt_baseline
    model_ranges [OF started_baseline h1] model_ranges [OF belt_baseline h2]
  show ?thesis
    by blast
qed

end
